theory Spec2Isabelle
  imports Complex_Main
begin

section \<open>JavaScript values\<close>

text \<open>
  The router of \<^verbatim>\<open>src/index.ts\<close> handles untyped values (\<^verbatim>\<open>any\<close>): request bodies,
  parsed queries, documents returned by the content engine, decoded token payloads.
  They are modelled by one datatype of JavaScript values. A finite number is the
  rational value of an IEEE double; \<open>-0\<close> is not told apart from \<open>0\<close>.
\<close>

datatype jsnum = Fin rat | PosInf | NegInf | NaN

datatype jsval =
    JUndefined
  | JNull
  | JBool bool
  | JNum jsnum
  | JStr string
  | JArr "jsval list"
  | JObj "(string \<times> jsval) list"

text \<open>Truthiness, as \<^verbatim>\<open>!x\<close> and \<^verbatim>\<open>x ? a : b\<close> and \<^verbatim>\<open>x || y\<close> test it.\<close>

fun truthy :: "jsval \<Rightarrow> bool" where
  "truthy JUndefined = False"
| "truthy JNull = False"
| "truthy (JBool b) = b"
| "truthy (JNum (Fin q)) = (q \<noteq> 0)"
| "truthy (JNum NaN) = False"
| "truthy (JNum _) = True"
| "truthy (JStr s) = (s \<noteq> [])"
| "truthy (JArr _) = True"
| "truthy (JObj _) = True"

text \<open>
  Reading a property that is not an array index or \<^verbatim>\<open>length\<close>: an own property of an
  object, \<^verbatim>\<open>undefined\<close> on every other value. On \<^verbatim>\<open>null\<close> and \<^verbatim>\<open>undefined\<close> the
  plain read \<^verbatim>\<open>x.k\<close> throws a TypeError, so every caller tests \<open>nullish\<close> first;
  \<open>get_prop\<close> alone is the optional chain \<^verbatim>\<open>x?.k\<close>.
\<close>

fun get_prop :: "jsval \<Rightarrow> string \<Rightarrow> jsval" where
  "get_prop (JObj kvs) k = (case map_of kvs k of None \<Rightarrow> JUndefined | Some v \<Rightarrow> v)"
| "get_prop _ k = JUndefined"

fun nullish :: "jsval \<Rightarrow> bool" where
  "nullish JUndefined = True"
| "nullish JNull = True"
| "nullish _ = False"

section \<open>Strings\<close>

definition startsWith :: "string \<Rightarrow> string \<Rightarrow> bool" where
  "startsWith s p = (take (length p) s = p)"

text \<open>\<^verbatim>\<open>s.includes(n)\<close>: \<open>n\<close> occurs in \<open>s\<close> as a contiguous run.\<close>

fun str_includes :: "string \<Rightarrow> string \<Rightarrow> bool" where
  "str_includes [] n = (n = [])"
| "str_includes (c # cs) n = (startsWith (c # cs) n \<or> str_includes cs n)"

text \<open>\<^verbatim>\<open>s.split(sep)\<close> for a one-character separator.\<close>

fun split_on :: "char \<Rightarrow> string \<Rightarrow> string list" where
  "split_on sep [] = [[]]"
| "split_on sep (c # cs) =
     (if c = sep then [] # split_on sep cs
      else (case split_on sep cs of [] \<Rightarrow> [[c]] | w # ws \<Rightarrow> (c # w) # ws))"

text \<open>Upper and lower case of the ASCII letters (method names and route literals are ASCII).\<close>

definition charCode :: "char \<Rightarrow> nat" where
  "charCode c = of_char c"

definition toUpperCase_char :: "char \<Rightarrow> char" where
  "toUpperCase_char c =
     (if 97 \<le> charCode c \<and> charCode c \<le> 122 then char_of (charCode c - 32) else c)"

definition toLowerCase_char :: "char \<Rightarrow> char" where
  "toLowerCase_char c =
     (if 65 \<le> charCode c \<and> charCode c \<le> 90 then char_of (charCode c + 32) else c)"

definition toUpperCase :: "string \<Rightarrow> string" where
  "toUpperCase s = map toUpperCase_char s"

definition toLowerCase :: "string \<Rightarrow> string" where
  "toLowerCase s = map toLowerCase_char s"

section \<open>The conversion \<^verbatim>\<open>Number(string)\<close>\<close>

text \<open>
  \<^verbatim>\<open>Number(s)\<close> on a string follows the StringNumericLiteral grammar of ECMAScript:
  white space is trimmed; the empty rest is \<open>0\<close>; otherwise the rest is a signed
  decimal literal (digits with an optional fraction and exponent, or \<^verbatim>\<open>Infinity\<close>) or an
  unsigned binary, octal or hexadecimal integer literal; everything else is \<open>NaN\<close>.
  Characters are code units below 256, so the white space is TAB, LF, VT, FF, CR, SP
  and NBSP.
\<close>

definition is_ws :: "char \<Rightarrow> bool" where
  "is_ws c = (charCode c \<in> {9, 10, 11, 12, 13, 32, 160})"

definition trim :: "string \<Rightarrow> string" where
  "trim s = rev (dropWhile is_ws (rev (dropWhile is_ws s)))"

definition digit_of :: "char \<Rightarrow> nat option" where
  "digit_of c =
     (if 48 \<le> charCode c \<and> charCode c \<le> 57 then Some (charCode c - 48)
      else if 97 \<le> charCode c \<and> charCode c \<le> 102 then Some (charCode c - 87)
      else if 65 \<le> charCode c \<and> charCode c \<le> 70 then Some (charCode c - 55)
      else None)"

definition is_digit :: "nat \<Rightarrow> char \<Rightarrow> bool" where
  "is_digit base c = (case digit_of c of None \<Rightarrow> False | Some d \<Rightarrow> d < base)"

text \<open>The value of a run of digits in a base, most significant digit first.\<close>

fun digits_val :: "nat \<Rightarrow> int \<Rightarrow> string \<Rightarrow> int" where
  "digits_val base acc [] = acc"
| "digits_val base acc (c # cs) =
     digits_val base
       (acc * int base + (case digit_of c of None \<Rightarrow> 0 | Some d \<Rightarrow> int d)) cs"

text \<open>A non-empty run of digits that is the whole string.\<close>

definition all_digits :: "nat \<Rightarrow> string \<Rightarrow> bool" where
  "all_digits base s = (s \<noteq> [] \<and> list_all (is_digit base) s)"

text \<open>ExponentPart: \<^verbatim>\<open>e\<close> or \<^verbatim>\<open>E\<close>, an optional sign, digits. The empty rest is exponent 0.\<close>

definition exponent_part :: "string \<Rightarrow> int option" where
  "exponent_part s =
     (case s of
        [] \<Rightarrow> Some 0
      | c # t \<Rightarrow>
          if c = CHR ''e'' \<or> c = CHR ''E'' then
            (case t of
               [] \<Rightarrow> None
             | d # u \<Rightarrow>
                 if d = CHR ''+'' then
                   (if all_digits 10 u then Some (digits_val 10 0 u) else None)
                 else if d = CHR ''-'' then
                   (if all_digits 10 u then Some (- digits_val 10 0 u) else None)
                 else if all_digits 10 t then Some (digits_val 10 0 t)
                 else None)
          else None)"

definition scale10 :: "int \<Rightarrow> int \<Rightarrow> rat" where
  "scale10 m e = (if 0 \<le> e then of_int m * 10 ^ nat e else of_int m / 10 ^ nat (- e))"

text \<open>StrUnsignedDecimalLiteral.\<close>

definition unsigned_decimal :: "string \<Rightarrow> jsnum" where
  "unsigned_decimal s =
     (if s = ''Infinity'' then PosInf
      else
        let ip = takeWhile (is_digit 10) s;
            r1 = dropWhile (is_digit 10) s;
            fp = (case r1 of [] \<Rightarrow> [] | c # t \<Rightarrow>
                    if c = CHR ''.'' then takeWhile (is_digit 10) t else []);
            r2 = (case r1 of [] \<Rightarrow> [] | c # t \<Rightarrow>
                    if c = CHR ''.'' then dropWhile (is_digit 10) t else r1)
        in if ip = [] \<and> fp = [] then NaN
           else (case exponent_part r2 of
                   None \<Rightarrow> NaN
                 | Some e \<Rightarrow> Fin (scale10 (digits_val 10 0 (ip @ fp)) (e - int (length fp)))))"

definition negate :: "jsnum \<Rightarrow> jsnum" where
  "negate n = (case n of Fin q \<Rightarrow> Fin (- q) | PosInf \<Rightarrow> NegInf | NegInf \<Rightarrow> PosInf | NaN \<Rightarrow> NaN)"

text \<open>NonDecimalIntegerLiteral: \<^verbatim>\<open>0b\<close>, \<^verbatim>\<open>0o\<close>, \<^verbatim>\<open>0x\<close> (either case) and digits of that base.\<close>

definition non_decimal :: "string \<Rightarrow> jsnum option" where
  "non_decimal s =
     (case s of
        z # p # ds \<Rightarrow>
          if z = CHR ''0'' then
            (let base = (if p = CHR ''b'' \<or> p = CHR ''B'' then 2
                         else if p = CHR ''o'' \<or> p = CHR ''O'' then 8
                         else if p = CHR ''x'' \<or> p = CHR ''X'' then 16
                         else (0::nat))
             in if base = 0 then None
                else if all_digits base ds then Some (Fin (of_int (digits_val base 0 ds)))
                else Some NaN)
          else None
      | _ \<Rightarrow> None)"

definition literal_value :: "string \<Rightarrow> jsnum" where
  "literal_value s =
     (let t = trim s in
      if t = [] then Fin 0
      else (case non_decimal t of
              Some n \<Rightarrow> n
            | None \<Rightarrow>
                (case t of
                   [] \<Rightarrow> Fin 0
                 | c # u \<Rightarrow>
                     if c = CHR ''+'' then unsigned_decimal u
                     else if c = CHR ''-'' then negate (unsigned_decimal u)
                     else unsigned_decimal t)))"

text \<open>
  The mathematical value of the literal is rounded to the nearest double, ties to the
  even significand: with \<open>e\<close> the binary exponent of the value (not below \<open>-1022\<close>, where
  the subnormal numbers begin) the doubles around it are the multiples of
  \<open>2 ^ (e - 52)\<close>; a result of \<open>2 ^ 1024\<close> or more is infinite. The function
  \<open>bitlen\<close> counts the binary digits of a positive integer.
\<close>

definition pow2 :: "int \<Rightarrow> rat" where
  "pow2 k = (if 0 \<le> k then 2 ^ nat k else 1 / 2 ^ nat (- k))"

function bitlen :: "int \<Rightarrow> int" where
  "bitlen n = (if n \<le> 0 then 0 else 1 + bitlen (n div 2))"
  by pat_completeness auto
termination
  by (relation "measure nat") auto

declare bitlen.simps [simp del]

definition floor_log2 :: "rat \<Rightarrow> int" where
  "floor_log2 q =
     (let k = bitlen (fst (quotient_of q)) - bitlen (snd (quotient_of q))
      in if pow2 k \<le> q then k else k - 1)"

definition round_half_even :: "rat \<Rightarrow> int" where
  "round_half_even m =
     (let f = \<lfloor>m\<rfloor>; r = m - of_int f in
      if r < 1 / 2 then f
      else if 1 / 2 < r then f + 1
      else if even f then f else f + 1)"

definition to_double_pos :: "rat \<Rightarrow> jsnum" where
  "to_double_pos q =
     (let e = max (floor_log2 q) (- 1022) in
      if 1024 \<le> e then PosInf
      else
        (let n = round_half_even (q / pow2 (e - 52)) in
         if e = 1023 \<and> n = 2 ^ 53 then PosInf
         else Fin (of_int n * pow2 (e - 52))))"

definition to_double :: "rat \<Rightarrow> jsnum" where
  "to_double q =
     (if q = 0 then Fin 0
      else if 0 < q then to_double_pos q
      else negate (to_double_pos (- q)))"

definition Number :: "string \<Rightarrow> jsnum" where
  "Number s = (case literal_value s of Fin q \<Rightarrow> to_double q | n \<Rightarrow> n)"

definition isNaN :: "jsnum \<Rightarrow> bool" where
  "isNaN n = (n = NaN)"

section \<open>Query normalizer\<close>

text \<open>
  The \<^verbatim>\<open>decoder\<close> that \<^verbatim>\<open>queryParser\<close> hands to the query-string library:
  \<^verbatim>\<open>if (!isNaN(Number(value))) return Number(value);
  if (value === "true") return true; if (value === "false") return false; return value;\<close>
\<close>

definition decoder :: "string \<Rightarrow> jsval" where
  "decoder v =
     (if \<not> isNaN (Number v) then JNum (Number v)
      else if v = ''true'' then JBool True
      else if v = ''false'' then JBool False
      else JStr v)"

section \<open>Errors, requests, responses\<close>

text \<open>
  A thrown value is an \<^verbatim>\<open>Error\<close> object: it has a name and a message (both strings), and
  the content engine's errors may carry \<^verbatim>\<open>status\<close> and \<^verbatim>\<open>data\<close>.
\<close>

record js_error =
  err_name :: string
  err_message :: string
  err_status :: jsval
  err_data :: jsval

definition TypeError :: "string \<Rightarrow> js_error" where
  "TypeError msg =
     \<lparr>err_name = ''TypeError'', err_message = msg, err_status = JUndefined, err_data = JUndefined\<rparr>"

definition Error :: "string \<Rightarrow> js_error" where
  "Error msg =
     \<lparr>err_name = ''Error'', err_message = msg, err_status = JUndefined, err_data = JUndefined\<rparr>"

text \<open>
  The request as the router reads it: \<^verbatim>\<open>req.method\<close> (upper case), \<^verbatim>\<open>req.path\<close>, the query
  component of \<^verbatim>\<open>req.url\<close>, \<^verbatim>\<open>req.headers\<close> (names in lower case), \<^verbatim>\<open>req.body\<close>,
  \<^verbatim>\<open>req.query\<close> (the entries of the parsed query object) and \<^verbatim>\<open>req.user\<close>
  (\<^verbatim>\<open>undefined\<close> until somebody sets it).
\<close>

record request =
  req_method :: string
  req_path :: string
  req_query_string :: string
  req_headers :: "(string \<times> string) list"
  req_body :: jsval
  req_query :: "(string \<times> jsval) list"
  req_user :: jsval

text \<open>What the router writes: \<^verbatim>\<open>res.status(n).json(body)\<close> or \<^verbatim>\<open>res.redirect(n, location)\<close>.\<close>

datatype response = Json nat jsval | Redirect nat jsval

section \<open>The content engine and the libraries\<close>

text \<open>
  An argument object handed to the content engine is a list of named entries; an entry
  is a plain value, the live request object or the live response object.
\<close>

datatype arg = AVal jsval | AReq request | ARes

type_synonym args = "(string \<times> arg) list"

text \<open>
  Writing a property of an object literal: an existing key keeps its place and takes the
  new value, a new key goes to the end. \<open>spread\<close> is \<^verbatim>\<open>{...base, ...query}\<close>.
\<close>

fun set_prop :: "string \<Rightarrow> 'a \<Rightarrow> (string \<times> 'a) list \<Rightarrow> (string \<times> 'a) list" where
  "set_prop k v [] = [(k, v)]"
| "set_prop k v ((k', v') # kvs) =
     (if k = k' then (k, v) # kvs else (k', v') # set_prop k v kvs)"

fun spread :: "args \<Rightarrow> (string \<times> jsval) list \<Rightarrow> args" where
  "spread base [] = base"
| "spread base ((k, v) # kvs) = spread (set_prop k (AVal v) base) kvs"

text \<open>
  The request object a custom endpoint's handler receives (\<^verbatim>\<open>payloadReq\<close>), and what the
  handler resolves to: a status, its \<^verbatim>\<open>Location\<close> header (\<^verbatim>\<open>null\<close> when absent) and the
  outcome of its \<^verbatim>\<open>json()\<close>.
\<close>

record synth_req =
  sr_fallbackLocale :: string
  sr_payloadAPI :: string
  sr_headers :: "(string \<times> string) list"
  sr_user :: jsval
  sr_query :: "(string \<times> jsval) list"

record hresult =
  hr_status :: nat
  hr_location :: jsval
  hr_json :: "js_error + jsval"

record endpoint =
  ep_path :: string
  ep_method :: string
  ep_handler :: "(synth_req \<Rightarrow> js_error + hresult) option"

text \<open>
  The content engine (\<^verbatim>\<open>payload\<close>): the names of its collections, \<^verbatim>\<open>config.secret\<close>,
  \<^verbatim>\<open>config.endpoints\<close>, and its operations, each of which returns a value or throws.
  Within one request an operation is a function of its argument object.
\<close>

record payload =
  pl_collections :: "string list"
  pl_secret :: string
  pl_endpoints :: "endpoint list"
  pl_find :: "args \<Rightarrow> js_error + jsval"
  pl_count :: "args \<Rightarrow> js_error + jsval"
  pl_findByID :: "args \<Rightarrow> js_error + jsval"
  pl_create :: "args \<Rightarrow> js_error + jsval"
  pl_update :: "args \<Rightarrow> js_error + jsval"
  pl_delete :: "args \<Rightarrow> js_error + jsval"
  pl_login :: "args \<Rightarrow> js_error + jsval"
  pl_logout :: "args \<Rightarrow> js_error + jsval"

text \<open>
  What the router takes from outside the repository: \<^verbatim>\<open>jwt.verify(token, key)\<close>, the
  SHA-256 digest in hexadecimal, \<^verbatim>\<open>parse(queryString, {decoder})\<close> of the query-string
  library, \<^verbatim>\<open>parseInt\<close>, and \<^verbatim>\<open>decodeURIComponent\<close>, which the framework applies to the
  parameters of a route (\<open>None\<close> when it throws its URIError).
\<close>

record libs =
  jwt_verify :: "string \<Rightarrow> string \<Rightarrow> js_error + jsval"
  sha256_hex :: "string \<Rightarrow> string"
  qs_parse :: "(string \<Rightarrow> jsval) \<Rightarrow> string \<Rightarrow> (string \<times> jsval) list"
  parseInt :: "jsval \<Rightarrow> jsval"
  decodeURIComponent :: "string \<Rightarrow> string option"

section \<open>Middleware outcomes\<close>

text \<open>
  A middleware function ends in one of five ways: it sends the response, it calls
  \<^verbatim>\<open>next()\<close>, \<^verbatim>\<open>next("router")\<close> or \<^verbatim>\<open>next(err)\<close>, or it throws (an \<^verbatim>\<open>async\<close> function:
  its promise rejects). On the way it may have called the content engine or a custom
  endpoint's handler, and it may have changed the request object.
\<close>

datatype signal = Sent response | Continue | ExitRouter | Raise js_error | Thrown js_error

datatype event = EngineCall string args | EndpointCall nat synth_req

record outcome =
  events :: "event list"
  req_after :: request
  signal :: signal

definition finish :: "request \<Rightarrow> signal \<Rightarrow> outcome" where
  "finish req sg = \<lparr>events = [], req_after = req, signal = sg\<rparr>"

text \<open>\<^verbatim>\<open>await payload.op(args)\<close> followed by the rest of the handler.\<close>

definition await_call ::
  "string \<Rightarrow> (args \<Rightarrow> js_error + jsval) \<Rightarrow> args \<Rightarrow> request \<Rightarrow> (jsval \<Rightarrow> signal) \<Rightarrow> outcome" where
  "await_call nm f a req k =
     \<lparr>events = [EngineCall nm a], req_after = req,
      signal = (case f a of Inl e \<Rightarrow> Thrown e | Inr r \<Rightarrow> k r)\<rparr>"

text \<open>
  \<^verbatim>\<open>asyncHandler(fn)\<close>: \<^verbatim>\<open>Promise.resolve(fn(req, res, next)).catch(next)\<close> turns whatever
  \<open>fn\<close> throws into \<^verbatim>\<open>next(err)\<close>.
\<close>

definition asyncHandler :: "(request \<Rightarrow> outcome) \<Rightarrow> request \<Rightarrow> outcome" where
  "asyncHandler fn req =
     (let s = fn req in case signal s of Thrown e \<Rightarrow> s\<lparr>signal := Raise e\<rparr> | _ \<Rightarrow> s)"

text \<open>The handlers of one route run in order; each next one runs when the last called \<^verbatim>\<open>next()\<close>.\<close>

definition and_then :: "outcome \<Rightarrow> (request \<Rightarrow> outcome) \<Rightarrow> outcome" where
  "and_then s f =
     (case signal s of
        Continue \<Rightarrow> (let t = f (req_after s) in t\<lparr>events := events s @ events t\<rparr>)
      | _ \<Rightarrow> s)"

fun chain :: "(request \<Rightarrow> outcome) list \<Rightarrow> request \<Rightarrow> outcome" where
  "chain [] req = finish req Continue"
| "chain (h # hs) req = and_then (h req) (chain hs)"

section \<open>The middleware functions\<close>

subsection \<open>queryParser\<close>

text \<open>Replaces \<^verbatim>\<open>req.query\<close> by the library's parse of the raw query string under \<open>decoder\<close>.\<close>

definition queryParser :: "libs \<Rightarrow> request \<Rightarrow> outcome" where
  "queryParser L req =
     finish (req\<lparr>req_query := qs_parse L decoder (req_query_string req)\<rparr>) Continue"

subsection \<open>payloadJwtAuthMiddleware\<close>

text \<open>
  Everything after the extraction of the token stands inside \<^verbatim>\<open>try { ... } catch (e)\<close>,
  whose handler only logs; after it comes \<^verbatim>\<open>next()\<close>. The user is fetched with
  \<^verbatim>\<open>{collection: "users", id: userId, overrideAccess: true, req}\<close>.
\<close>

definition jwt_args :: "jsval \<Rightarrow> request \<Rightarrow> args" where
  "jwt_args userId req =
     [(''collection'', AVal (JStr ''users'')), (''id'', AVal userId),
      (''overrideAccess'', AVal (JBool True)), (''req'', AReq req)]"

definition payloadJwtAuthMiddleware :: "payload \<Rightarrow> libs \<Rightarrow> request \<Rightarrow> outcome" where
  "payloadJwtAuthMiddleware P L req =
     (case map_of (req_headers req) ''authorization'' of
        None \<Rightarrow> finish req Continue
      | Some authHeader \<Rightarrow>
          if pl_secret P = [] \<or> authHeader = [] \<or> \<not> startsWith authHeader ''Bearer ''
          then finish req Continue
          else
            (case split_on CHR '' '' authHeader of
               _ # token # _ \<Rightarrow>
                 if token = [] then finish req Continue
                 else
                   (let payloadVerificationSecret = take 32 (sha256_hex L (pl_secret P)) in
                    case jwt_verify L token payloadVerificationSecret of
                      Inl e \<Rightarrow> finish req Continue
                    | Inr decoded \<Rightarrow>
                        (let userId = get_prop decoded ''id'' in
                         if \<not> truthy userId then finish req Continue
                         else
                           (case pl_findByID P (jwt_args userId req) of
                              Inl e \<Rightarrow>
                                \<lparr>events = [EngineCall ''findByID'' (jwt_args userId req)],
                                 req_after = req, signal = Continue\<rparr>
                            | Inr fullUserDocument \<Rightarrow>
                                \<lparr>events = [EngineCall ''findByID'' (jwt_args userId req)],
                                 req_after =
                                   (if truthy fullUserDocument
                                    then req\<lparr>req_user := fullUserDocument\<rparr> else req),
                                 signal = Continue\<rparr>)))
             | _ \<Rightarrow> finish req Continue))"

subsection \<open>isAuthenticated\<close>

definition unauthorized :: response where
  "unauthorized =
     Json 401 (JObj [(''error'', JStr ''Unauthorized''),
       (''message'', JStr ''Payload: Authentication required to perform actions.'')])"

definition isAuthenticated :: "request \<Rightarrow> outcome" where
  "isAuthenticated req =
     (if \<not> truthy (req_user req) then finish req (Sent unauthorized) else finish req Continue)"

subsection \<open>The custom-endpoint catch-all\<close>

text \<open>
  The route is the regular expression \<^verbatim>\<open>/^\/(api|auth)\/([^\/]+)(\/.*)?$/\<close>; the handler
  receives the route's parameters and reads \<^verbatim>\<open>customPath\<close> from them. From
  \<^verbatim>\<open>payload.config.endpoints.find(...)\<close> on, the body stands inside \<^verbatim>\<open>try\<close>, and the
  \<^verbatim>\<open>catch\<close> logs and calls \<^verbatim>\<open>next("router")\<close>.
\<close>

definition payloadReq_of :: "request \<Rightarrow> synth_req" where
  "payloadReq_of req =
     \<lparr>sr_fallbackLocale = ''en'', sr_payloadAPI = ''REST'', sr_headers = req_headers req,
      sr_user = JNull, sr_query = req_query req\<rparr>"

definition customEndpoint :: "payload \<Rightarrow> (string \<times> string) list \<Rightarrow> request \<Rightarrow> outcome" where
  "customEndpoint P params req =
     (let customPath = map_of params ''customPath''; fullPath = req_path req in
      if (case customPath of None \<Rightarrow> False | Some c \<Rightarrow> c \<in> set (pl_collections P))
      then finish req Continue
      else
        (case find (\<lambda>ie. ep_path (snd ie) = fullPath) (enumerate 0 (pl_endpoints P)) of
           None \<Rightarrow> finish req Continue
         | Some (i, myEndpoint) \<Rightarrow>
             (case ep_handler myEndpoint of
                None \<Rightarrow> finish req Continue
              | Some handler \<Rightarrow>
                  if toUpperCase (ep_method myEndpoint) \<noteq> req_method req
                  then finish req Continue
                  else
                    \<lparr>events = [EndpointCall i (payloadReq_of req)], req_after = req,
                     signal =
                       (case handler (payloadReq_of req) of
                          Inl error \<Rightarrow> ExitRouter
                        | Inr result \<Rightarrow>
                            if 300 \<le> hr_status result \<and> hr_status result < 400
                            then Sent (Redirect (hr_status result) (hr_location result))
                            else
                              (case hr_json result of
                                 Inl error \<Rightarrow> ExitRouter
                               | Inr data \<Rightarrow>
                                   Sent (Json (if hr_status result = 0 then 200
                                               else hr_status result) data)))\<rparr>)))"

subsection \<open>The collection gate\<close>

definition collectionGate :: "payload \<Rightarrow> string \<Rightarrow> request \<Rightarrow> outcome" where
  "collectionGate P collection req =
     (if collection \<notin> set (pl_collections P) then finish req ExitRouter
      else finish req Continue)"

subsection \<open>Authentication routes\<close>

definition login :: "payload \<Rightarrow> string \<Rightarrow> request \<Rightarrow> outcome" where
  "login P collection req =
     await_call ''login'' (pl_login P)
       [(''collection'', AVal (JStr collection)), (''data'', AVal (req_body req)),
        (''req'', AReq req), (''res'', ARes)]
       req (\<lambda>result. Sent (Json 200 result))"

definition logout :: "payload \<Rightarrow> string \<Rightarrow> request \<Rightarrow> outcome" where
  "logout P collection req =
     await_call ''logout'' (pl_logout P)
       [(''collection'', AVal (JStr collection)), (''req'', AReq req), (''res'', ARes)]
       req (\<lambda>result. Sent (Json 200 result))"

text \<open>
  \<^verbatim>\<open>{...result}\<close> copies the own enumerable properties: the entries of an object, the
  indexed elements of an array or a string, nothing of any other value.
\<close>

fun nat_to_string :: "nat \<Rightarrow> string" where
  "nat_to_string n =
     (if n < 10 then [char_of (48 + n)]
      else nat_to_string (n div 10) @ [char_of (48 + n mod 10)])"

declare nat_to_string.simps [simp del]

definition own_entries :: "jsval \<Rightarrow> (string \<times> jsval) list" where
  "own_entries v =
     (case v of
        JObj kvs \<Rightarrow> kvs
      | JArr xs \<Rightarrow> map (\<lambda>ix. (nat_to_string (fst ix), snd ix)) (enumerate 0 xs)
      | JStr s \<Rightarrow> map (\<lambda>ic. (nat_to_string (fst ic), JStr [snd ic])) (enumerate 0 s)
      | _ \<Rightarrow> [])"

definition delete_key :: "string \<Rightarrow> (string \<times> jsval) list \<Rightarrow> (string \<times> jsval) list" where
  "delete_key k kvs = filter (\<lambda>kv. fst kv \<noteq> k) kvs"

text \<open>
  \<^verbatim>\<open>const { id } = req.user\<close> throws a TypeError on \<^verbatim>\<open>undefined\<close> and \<^verbatim>\<open>null\<close>; so does
  \<^verbatim>\<open>result.docs\<close>. The messages are V8's.
\<close>

definition quoted :: "string \<Rightarrow> string" where
  "quoted s = [CHR 0x27] @ s @ [CHR 0x27]"

definition name_of_nullish :: "jsval \<Rightarrow> string" where
  "name_of_nullish u = (if u = JNull then ''null'' else ''undefined'')"

definition destructure_message :: "jsval \<Rightarrow> string" where
  "destructure_message u =
     ''Cannot destructure property '' @ quoted ''id'' @ '' of '' @ quoted ''req.user'' @
     '' as it is '' @ name_of_nullish u @ ''.''"

definition read_message :: "jsval \<Rightarrow> string \<Rightarrow> string" where
  "read_message u k =
     ''Cannot read properties of '' @ name_of_nullish u @ '' (reading '' @ quoted k @ '')''"

definition me :: "payload \<Rightarrow> string \<Rightarrow> request \<Rightarrow> outcome" where
  "me P collection req =
     (if nullish (req_user req)
      then finish req (Thrown (TypeError (destructure_message (req_user req))))
      else
        await_call ''findByID'' (pl_findByID P)
          [(''collection'', AVal (JStr collection)),
           (''id'', AVal (get_prop (req_user req) ''id''))]
          req
          (\<lambda>result. Sent (Json 200 (JObj (delete_key ''sessions'' (own_entries result))))))"

subsection \<open>Collection CRUD routes\<close>

definition depth_of :: "libs \<Rightarrow> request \<Rightarrow> jsval \<Rightarrow> jsval" where
  "depth_of L req dflt =
     (let d = get_prop (JObj (req_query req)) ''depth'' in
      if truthy d then parseInt L d else dflt)"

definition find_args :: "libs \<Rightarrow> string \<Rightarrow> request \<Rightarrow> args" where
  "find_args L collection req =
     spread
       [(''collection'', AVal (JStr collection)),
        (''depth'', AVal (depth_of L req (JNum (Fin 0)))),
        (''req'', AReq req)]
       (req_query req)"

definition findMany :: "payload \<Rightarrow> libs \<Rightarrow> bool \<Rightarrow> string \<Rightarrow> request \<Rightarrow> outcome" where
  "findMany P L simpleResponses collection req =
     await_call ''find'' (pl_find P) (find_args L collection req) req
       (\<lambda>result.
          if simpleResponses then
            (if nullish result then Thrown (TypeError (read_message result ''docs''))
             else Sent (Json 200 (get_prop result ''docs'')))
          else Sent (Json 200 result))"

definition count :: "payload \<Rightarrow> libs \<Rightarrow> string \<Rightarrow> request \<Rightarrow> outcome" where
  "count P L collection req =
     await_call ''count'' (pl_count P) (find_args L collection req) req
       (\<lambda>result. Sent (Json 200 result))"

definition findByID_args :: "libs \<Rightarrow> string \<Rightarrow> string \<Rightarrow> request \<Rightarrow> args" where
  "findByID_args L collection docId req =
     spread
       [(''collection'', AVal (JStr collection)),
        (''id'', AVal (JStr docId)),
        (''depth'', AVal (depth_of L req (JNum (Fin 2)))),
        (''req'', AReq req)]
       (req_query req)"

definition not_found :: "string \<Rightarrow> string \<Rightarrow> response" where
  "not_found collection docId =
     Json 404 (JObj [(''error'', JStr (collection @ '' with ID '' @ docId @ '' not found.''))])"

definition findByID :: "payload \<Rightarrow> libs \<Rightarrow> string \<Rightarrow> string \<Rightarrow> request \<Rightarrow> outcome" where
  "findByID P L collection docId req =
     await_call ''findByID'' (pl_findByID P) (findByID_args L collection docId req) req
       (\<lambda>result.
          if \<not> truthy result then Sent (not_found collection docId)
          else Sent (Json 200 result))"

definition create_args :: "string \<Rightarrow> request \<Rightarrow> args" where
  "create_args collection req =
     [(''collection'', AVal (JStr collection)), (''data'', AVal (req_body req))]"

definition create :: "payload \<Rightarrow> string \<Rightarrow> request \<Rightarrow> outcome" where
  "create P collection req =
     await_call ''create'' (pl_create P) (create_args collection req) req
       (\<lambda>result. Sent (Json 201 result))"

definition update_args :: "string \<Rightarrow> string \<Rightarrow> request \<Rightarrow> args" where
  "update_args collection docId req =
     [(''collection'', AVal (JStr collection)), (''id'', AVal (JStr docId)),
      (''data'', AVal (req_body req))]"

definition update :: "payload \<Rightarrow> string \<Rightarrow> string \<Rightarrow> request \<Rightarrow> outcome" where
  "update P collection docId req =
     await_call ''update'' (pl_update P) (update_args collection docId req) req
       (\<lambda>result. Sent (Json 200 result))"

definition delete_args :: "string \<Rightarrow> string \<Rightarrow> args" where
  "delete_args collection docId =
     [(''collection'', AVal (JStr collection)), (''id'', AVal (JStr docId))]"

definition delete :: "payload \<Rightarrow> string \<Rightarrow> string \<Rightarrow> request \<Rightarrow> outcome" where
  "delete P collection docId req =
     await_call ''delete'' (pl_delete P) (delete_args collection docId) req
       (\<lambda>result. Sent (Json 200 result))"

subsection \<open>errorHandler\<close>

definition errorHandler :: "js_error \<Rightarrow> response" where
  "errorHandler err =
     (if err_name err = ''ValidationError'' \<or>
         (\<not> nullish (err_data err) \<and> truthy (get_prop (err_data err) ''errors''))
      then Json 400 (JObj [(''error'', JStr ''Validation Failed''),
             (''message'', JStr (err_message err)), (''data'', err_data err)])
      else if err_status err = JNum (Fin 401)
      then Json 401 (JObj [(''errors'', JObj [(''message'', JArr [JStr (err_message err)])])])
      else if str_includes (err_message err) ''Not Found'' \<or>
              str_includes (err_message err) ''Cast to ObjectId failed''
      then Json 404 (JObj [(''error'', JStr ''Resource Not Found''),
             (''message'', JStr (err_message err))])
      else Json 500 (JObj [(''error'', JStr ''Server Error''),
             (''message'', JStr (err_message err))]))"

section \<open>Routing\<close>

text \<open>
  The router matches \<^verbatim>\<open>req.path\<close>. A path is cut at its slashes.
\<close>

definition path_segments :: "string \<Rightarrow> string list option" where
  "path_segments p =
     (case p of
        [] \<Rightarrow> None
      | c # r \<Rightarrow> if c = CHR ''/'' then Some (split_on CHR ''/'' r) else None)"

text \<open>
  The values a layer's pattern captures become \<^verbatim>\<open>req.params\<close> after
  \<^verbatim>\<open>decodeURIComponent\<close> (the empty value is left alone). When a value does not decode,
  the match of the layer fails with a URIError of status 400 and the message
  \<^verbatim>\<open>Failed to decode param '...'\<close>; the values are decoded in order.
\<close>

definition decode_param :: "libs \<Rightarrow> string \<Rightarrow> js_error + string" where
  "decode_param L val =
     (if val = [] then Inr val
      else (case decodeURIComponent L val of
              None \<Rightarrow>
                Inl \<lparr>err_name = ''URIError'',
                     err_message = ''Failed to decode param '' @ quoted val,
                     err_status = JNum (Fin 400), err_data = JUndefined\<rparr>
            | Some s \<Rightarrow> Inr s))"

fun decode_params :: "libs \<Rightarrow> string list \<Rightarrow> js_error + string list" where
  "decode_params L [] = Inr []"
| "decode_params L (v # vs) =
     (case decode_param L v of
        Inl e \<Rightarrow> Inl e
      | Inr d \<Rightarrow>
          (case decode_params L vs of
             Inl e \<Rightarrow> Inl e
           | Inr ds \<Rightarrow> Inr (d # ds)))"

text \<open>
  The match of a layer against a path: no match, a match that fails in decoding, or a
  match with its decoded parameters.
\<close>

datatype 'a matched = NoMatch | DecodeFailed js_error | Matched 'a

definition decode_all :: "libs \<Rightarrow> string list \<Rightarrow> string list matched" where
  "decode_all L vs = (case decode_params L vs of Inl e \<Rightarrow> DecodeFailed e | Inr ds \<Rightarrow> Matched ds)"

text \<open>
  The regular expression of the catch-all, \<^verbatim>\<open>/^\/(api|auth)\/([^\/]+)(\/.*)?$/\<close>: it is
  case-sensitive, its groups have no names, so the route's parameters are numbered
  \<^verbatim>\<open>0\<close>, \<^verbatim>\<open>1\<close>, \<^verbatim>\<open>2\<close>; the dot of the third group matches no line terminator.
\<close>

definition has_line_terminator :: "string \<Rightarrow> bool" where
  "has_line_terminator s = (CHR 0x0A \<in> set s \<or> CHR 0x0D \<in> set s)"

definition regex_params :: "libs \<Rightarrow> string \<Rightarrow> (string \<times> string) list matched" where
  "regex_params L p =
     (case path_segments p of
        Some (a # c # rest) \<Rightarrow>
          (let tail = drop (length a + length c + 2) p in
           if (a = ''api'' \<or> a = ''auth'') \<and> c \<noteq> [] \<and> \<not> has_line_terminator tail
           then
             (case decode_all L ([a, c] @ (if rest = [] then [] else [tail])) of
                Matched ds \<Rightarrow> Matched (zip [''0'', ''1'', ''2''] ds)
              | DecodeFailed e \<Rightarrow> DecodeFailed e
              | NoMatch \<Rightarrow> NoMatch)
           else NoMatch)
      | _ \<Rightarrow> NoMatch)"

text \<open>
  A string pattern such as \<^verbatim>\<open>/api/:collection/me\<close> is a list of literal segments and
  parameters. Literals compare without regard to case, a parameter takes one non-empty
  segment. A route pattern must use up the path, but for one trailing slash; the pattern
  of \<^verbatim>\<open>router.use\<close> matches a prefix of the path.
\<close>

datatype pseg = Lit string | Par

fun match_segs :: "pseg list \<Rightarrow> string list \<Rightarrow> (string list \<times> string list) option" where
  "match_segs [] segs = Some ([], segs)"
| "match_segs (p # ps) [] = None"
| "match_segs (Lit l # ps) (s # segs) =
     (if toLowerCase s = toLowerCase l then match_segs ps segs else None)"
| "match_segs (Par # ps) (s # segs) =
     (if s = [] then None
      else (case match_segs ps segs of
              None \<Rightarrow> None
            | Some (vs, rest) \<Rightarrow> Some (s # vs, rest)))"

definition match_route :: "libs \<Rightarrow> pseg list \<Rightarrow> string \<Rightarrow> string list matched" where
  "match_route L pat p =
     (case path_segments p of
        None \<Rightarrow> NoMatch
      | Some segs \<Rightarrow>
          (case match_segs pat segs of
             None \<Rightarrow> NoMatch
           | Some (vs, rest) \<Rightarrow>
               if rest = [] \<or> rest = [[]] then decode_all L vs else NoMatch))"

definition match_use :: "libs \<Rightarrow> pseg list \<Rightarrow> string \<Rightarrow> string list matched" where
  "match_use L pat p =
     (case path_segments p of
        None \<Rightarrow> NoMatch
      | Some segs \<Rightarrow>
          (case match_segs pat segs of None \<Rightarrow> NoMatch | Some (vs, rest) \<Rightarrow> decode_all L vs))"

text \<open>A route of method \<^verbatim>\<open>GET\<close> also serves \<^verbatim>\<open>HEAD\<close>.\<close>

definition handles :: "string \<Rightarrow> string \<Rightarrow> bool" where
  "handles routeMethod m = (m = routeMethod \<or> (routeMethod = ''GET'' \<and> m = ''HEAD''))"

text \<open>
  The layers of the router, in the order of their registration, and the path pattern each
  string-pattern layer is registered with.
\<close>

datatype route =
    CustomRoute | CollectionGate | LoginRoute | LogoutRoute | MeRoute
  | FindManyRoute | CountRoute | FindByIDRoute | CreateRoute | UpdateRoute | DeleteRoute

definition routes :: "route list" where
  "routes =
     [CustomRoute, CollectionGate, LoginRoute, LogoutRoute, MeRoute,
      FindManyRoute, CountRoute, FindByIDRoute, CreateRoute, UpdateRoute, DeleteRoute]"

fun route_path :: "route \<Rightarrow> pseg list" where
  "route_path CustomRoute = []"
| "route_path CollectionGate = [Lit ''api'', Par]"
| "route_path LoginRoute = [Lit ''api'', Par, Lit ''login'']"
| "route_path LogoutRoute = [Lit ''api'', Par, Lit ''logout'']"
| "route_path MeRoute = [Lit ''api'', Par, Lit ''me'']"
| "route_path FindManyRoute = [Lit ''api'', Par]"
| "route_path CountRoute = [Lit ''api'', Par, Lit ''count'']"
| "route_path FindByIDRoute = [Lit ''api'', Par, Par]"
| "route_path CreateRoute = [Lit ''api'', Par]"
| "route_path UpdateRoute = [Lit ''api'', Par, Par]"
| "route_path DeleteRoute = [Lit ''api'', Par, Par]"

text \<open>
  \<open>layer\<close> is the outcome of a layer's handlers when the layer matches the request (path
  and, for a route, method) and its parameters decode, and \<open>None\<close> otherwise.
\<close>

definition on_collection ::
  "libs \<Rightarrow> string \<Rightarrow> pseg list \<Rightarrow> request \<Rightarrow> (string \<Rightarrow> request \<Rightarrow> outcome) \<Rightarrow>
   outcome option" where
  "on_collection L m pat req h =
     (if handles m (req_method req) then
        (case match_route L pat (req_path req) of
           Matched [collection] \<Rightarrow> Some (h collection req)
         | _ \<Rightarrow> None)
      else None)"

definition on_collection_id ::
  "libs \<Rightarrow> string \<Rightarrow> pseg list \<Rightarrow> request \<Rightarrow>
   (string \<Rightarrow> string \<Rightarrow> request \<Rightarrow> outcome) \<Rightarrow> outcome option" where
  "on_collection_id L m pat req h =
     (if handles m (req_method req) then
        (case match_route L pat (req_path req) of
           Matched [collection, docId] \<Rightarrow> Some (h collection docId req)
         | _ \<Rightarrow> None)
      else None)"

fun layer :: "payload \<Rightarrow> libs \<Rightarrow> bool \<Rightarrow> route \<Rightarrow> request \<Rightarrow> outcome option" where
  "layer P L simpleResponses CustomRoute req =
     (case regex_params L (req_path req) of
        Matched params \<Rightarrow> Some (asyncHandler (customEndpoint P params) req)
      | _ \<Rightarrow> None)"
| "layer P L simpleResponses CollectionGate req =
     (case match_use L (route_path CollectionGate) (req_path req) of
        Matched [collection] \<Rightarrow> Some (collectionGate P collection req)
      | _ \<Rightarrow> None)"
| "layer P L simpleResponses LoginRoute req =
     on_collection L ''POST'' (route_path LoginRoute) req
       (\<lambda>collection. asyncHandler (login P collection))"
| "layer P L simpleResponses LogoutRoute req =
     on_collection L ''POST'' (route_path LogoutRoute) req
       (\<lambda>collection. asyncHandler (logout P collection))"
| "layer P L simpleResponses MeRoute req =
     on_collection L ''GET'' (route_path MeRoute) req
       (\<lambda>collection. chain [payloadJwtAuthMiddleware P L, asyncHandler (me P collection)])"
| "layer P L simpleResponses FindManyRoute req =
     on_collection L ''GET'' (route_path FindManyRoute) req
       (\<lambda>collection. chain [payloadJwtAuthMiddleware P L, isAuthenticated, queryParser L,
          asyncHandler (findMany P L simpleResponses collection)])"
| "layer P L simpleResponses CountRoute req =
     on_collection L ''GET'' (route_path CountRoute) req
       (\<lambda>collection. chain [payloadJwtAuthMiddleware P L, isAuthenticated, queryParser L,
          asyncHandler (count P L collection)])"
| "layer P L simpleResponses FindByIDRoute req =
     on_collection_id L ''GET'' (route_path FindByIDRoute) req
       (\<lambda>collection docId. chain [payloadJwtAuthMiddleware P L, isAuthenticated,
          asyncHandler (findByID P L collection docId)])"
| "layer P L simpleResponses CreateRoute req =
     on_collection L ''POST'' (route_path CreateRoute) req
       (\<lambda>collection. chain [payloadJwtAuthMiddleware P L, isAuthenticated,
          asyncHandler (create P collection)])"
| "layer P L simpleResponses UpdateRoute req =
     on_collection_id L ''PATCH'' (route_path UpdateRoute) req
       (\<lambda>collection docId. chain [payloadJwtAuthMiddleware P L, isAuthenticated,
          asyncHandler (update P collection docId)])"
| "layer P L simpleResponses DeleteRoute req =
     on_collection_id L ''DELETE'' (route_path DeleteRoute) req
       (\<lambda>collection docId. chain [payloadJwtAuthMiddleware P L, isAuthenticated,
          asyncHandler (delete P collection docId)])"

text \<open>
  \<open>layer_failure\<close> is the error with which the match of a layer fails: the pattern
  matches the path and a parameter does not decode. The framework matches the path
  before it looks at the method, so the method plays no part in it.
\<close>

definition failure_of :: "'a matched \<Rightarrow> js_error option" where
  "failure_of m = (case m of DecodeFailed e \<Rightarrow> Some e | _ \<Rightarrow> None)"

definition layer_failure :: "libs \<Rightarrow> route \<Rightarrow> request \<Rightarrow> js_error option" where
  "layer_failure L r req =
     (if r = CustomRoute then failure_of (regex_params L (req_path req))
      else if r = CollectionGate then failure_of (match_use L (route_path r) (req_path req))
      else failure_of (match_route L (route_path r) (req_path req)))"

text \<open>
  One layer of the stack: a failed match is kept as a pending error, under which no later
  route matches and every later middleware is passed over, so the request goes on to the
  error-handling layer as after \<^verbatim>\<open>next(err)\<close>; otherwise the layer's handlers run.
\<close>

definition step :: "payload \<Rightarrow> libs \<Rightarrow> bool \<Rightarrow> route \<Rightarrow> request \<Rightarrow> outcome option" where
  "step P L simpleResponses r req =
     (case layer_failure L r req of
        Some e \<Rightarrow> Some (finish req (Raise e))
      | None \<Rightarrow> layer P L simpleResponses r req)"

text \<open>
  The stack runs its layers in order: a layer that does not match is skipped, a layer
  that called \<^verbatim>\<open>next()\<close> hands over to the rest. Falling off the end of the stack, like
  \<^verbatim>\<open>next("router")\<close>, hands the request back to the application.
\<close>

fun run_stack :: "(request \<Rightarrow> outcome option) list \<Rightarrow> request \<Rightarrow> outcome" where
  "run_stack [] req = finish req Continue"
| "run_stack (l # ls) req =
     (case l req of
        None \<Rightarrow> run_stack ls req
      | Some s \<Rightarrow> and_then s (run_stack ls))"

text \<open>
  The router: the stack, closed by the error-handling layer \<^verbatim>\<open>router.use((err, req, res,
  next) => ...)\<close>, which receives whatever was passed to \<^verbatim>\<open>next(err)\<close>.
\<close>

definition payloadAPIRouterMiddleware :: "payload \<Rightarrow> libs \<Rightarrow> bool \<Rightarrow> request \<Rightarrow> outcome" where
  "payloadAPIRouterMiddleware P L simpleResponses req =
     (let s = run_stack (map (step P L simpleResponses) routes) req in
      case signal s of
        Raise err \<Rightarrow> s\<lparr>signal := Sent (errorHandler err)\<rparr>
      | _ \<Rightarrow> s)"

section \<open>What an error reply looks like\<close>

text \<open>
  A reply in the error format: a JSON body with a key \<^verbatim>\<open>error\<close> or \<^verbatim>\<open>errors\<close> under one of
  the statuses 400, 401, 404, 500.
\<close>

definition is_error_reply :: "response \<Rightarrow> bool" where
  "is_error_reply r =
     (case r of
        Json st body \<Rightarrow>
          st \<in> {400, 401, 404, 500} \<and>
          (get_prop body ''error'' \<noteq> JUndefined \<or> get_prop body ''errors'' \<noteq> JUndefined)
      | Redirect st loc \<Rightarrow> False)"

section \<open>A sample installation\<close>

text \<open>
  A content engine with the collections \<^verbatim>\<open>users\<close> and \<^verbatim>\<open>posts\<close> and a given list of custom
  endpoints: find-by-id finds no record, create fails validation, the other operations
  return small documents. In \<open>sample_libs\<close> every token fails verification, and
  \<^verbatim>\<open>decodeURIComponent\<close> is \<open>percent_decode\<close>, which decodes the escapes of the ASCII
  characters (all that the samples use) and fails on a \<^verbatim>\<open>%\<close> that no two hexadecimal
  digits follow.
\<close>

fun percent_decode :: "string \<Rightarrow> string option" where
  "percent_decode [] = Some []"
| "percent_decode (c # cs) =
     (if c = CHR ''%'' then
        (case cs of
           h # l # rest \<Rightarrow>
             (case (digit_of h, digit_of l) of
                (Some a, Some b) \<Rightarrow>
                  if a < 8 then map_option ((#) (char_of (16 * a + b))) (percent_decode rest)
                  else None
              | _ \<Rightarrow> None)
         | _ \<Rightarrow> None)
      else map_option ((#) c) (percent_decode cs))"

definition validation_error :: js_error where
  "validation_error =
     \<lparr>err_name = ''ValidationError'', err_message = ''The following field is invalid: title'',
      err_status = JNum (Fin 400),
      err_data = JObj [(''errors'', JArr [JObj [(''field'', JStr ''title'')]])]\<rparr>"

definition sample_engine :: "endpoint list \<Rightarrow> payload" where
  "sample_engine eps =
     \<lparr>pl_collections = [''users'', ''posts''], pl_secret = ''s3cret'', pl_endpoints = eps,
      pl_find = (\<lambda>a. Inr (JObj [(''docs'', JArr []), (''totalDocs'', JNum (Fin 0))])),
      pl_count = (\<lambda>a. Inr (JObj [(''totalDocs'', JNum (Fin 0))])),
      pl_findByID = (\<lambda>a. Inr JNull),
      pl_create = (\<lambda>a. Inl validation_error),
      pl_update = (\<lambda>a. Inr (JObj [(''id'', JStr ''7'')])),
      pl_delete = (\<lambda>a. Inr (JObj [(''id'', JStr ''7'')])),
      pl_login = (\<lambda>a. Inr (JObj [(''token'', JStr ''t'')])),
      pl_logout = (\<lambda>a. Inr (JObj [(''message'', JStr ''bye'')]))\<rparr>"

definition sample_libs :: libs where
  "sample_libs =
     \<lparr>jwt_verify = (\<lambda>token key. Inl (Error ''jwt malformed'')),
      sha256_hex = (\<lambda>s. replicate 64 CHR ''0''),
      qs_parse = (\<lambda>dec s. if s = [] then [] else [(''q'', dec s)]),
      parseInt = (\<lambda>v. v),
      decodeURIComponent = percent_decode\<rparr>"

definition sample_request :: "string \<Rightarrow> string \<Rightarrow> request" where
  "sample_request m p =
     \<lparr>req_method = m, req_path = p, req_query_string = [], req_headers = [],
      req_body = JObj [(''title'', JStr '''')], req_query = [], req_user = JUndefined\<rparr>"

definition sample_user :: jsval where
  "sample_user = JObj [(''id'', JStr ''u1''), (''email'', JStr ''a@b.c'')]"

definition json_handler :: "synth_req \<Rightarrow> js_error + hresult" where
  "json_handler r =
     Inr \<lparr>hr_status = 200, hr_location = JNull, hr_json = Inr (JStr ''custom'')\<rparr>"

definition failing_handler :: "synth_req \<Rightarrow> js_error + hresult" where
  "failing_handler r = Inl (Error ''boom'')"

definition broken_json_handler :: "synth_req \<Rightarrow> js_error + hresult" where
  "broken_json_handler r =
     Inr \<lparr>hr_status = 200, hr_location = JNull,
          hr_json = Inl (Error ''Unexpected end of JSON input'')\<rparr>"

section \<open>Auxiliary facts\<close>

lemma split_on_nosep: "sep \<notin> set s \<Longrightarrow> split_on sep s = [s]"
  by (induction s) auto

lemma split_on_append: "sep \<notin> set a \<Longrightarrow> split_on sep (a @ sep # b) = a # split_on sep b"
  by (induction a) auto

lemma map_of_set_prop:
  "map_of (set_prop k v kvs) k' = (if k' = k then Some v else map_of kvs k')"
  by (induction kvs) auto

lemma map_of_spread:
  "k \<notin> fst ` set q \<Longrightarrow> map_of (spread base q) k = map_of base k"
  by (induction q arbitrary: base) (auto simp: map_of_set_prop)


lemma await_call_events: "events (await_call nm f a req k) = [EngineCall nm a]"
  by (simp add: await_call_def)

lemma asyncHandler_not_thrown: "signal (asyncHandler fn req) \<noteq> Thrown e"
  by (simp add: asyncHandler_def Let_def split: signal.splits)

lemma jwt_signal: "signal (payloadJwtAuthMiddleware P L req) = Continue"
  by (simp add: payloadJwtAuthMiddleware_def finish_def Let_def
      split: option.splits list.splits sum.splits)

lemma and_then_signal:
  "signal (and_then s f) = (if signal s = Continue then signal (f (req_after s)) else signal s)"
  by (simp add: and_then_def Let_def split: signal.splits)

lemma chain_not_thrown:
  "(\<And>h r. h \<in> set hs \<Longrightarrow> signal (h r) \<noteq> Thrown e) \<Longrightarrow> signal (chain hs req) \<noteq> Thrown e"
  by (induction hs arbitrary: req) (auto simp: finish_def and_then_signal)

lemma isAuthenticated_not_thrown: "signal (isAuthenticated req) \<noteq> Thrown e"
  by (simp add: isAuthenticated_def finish_def)

lemma queryParser_signal: "signal (queryParser L req) = Continue"
  by (simp add: queryParser_def finish_def)

lemma collectionGate_not_thrown: "signal (collectionGate P c req) \<noteq> Thrown e"
  by (simp add: collectionGate_def finish_def)

lemma on_collection_not_thrown:
  "(\<And>c r. signal (h c r) \<noteq> Thrown e) \<Longrightarrow> on_collection L m pat req h = Some out \<Longrightarrow>
   signal out \<noteq> Thrown e"
  by (auto simp: on_collection_def split: if_splits matched.splits list.splits)

lemma on_collection_id_not_thrown:
  "(\<And>c i r. signal (h c i r) \<noteq> Thrown e) \<Longrightarrow> on_collection_id L m pat req h = Some out \<Longrightarrow>
   signal out \<noteq> Thrown e"
  by (auto simp: on_collection_id_def split: if_splits matched.splits list.splits)

lemma layer_not_thrown: "layer P L s r req = Some out \<Longrightarrow> signal out \<noteq> Thrown e"
proof (cases r)
  case CustomRoute
  then show "layer P L s r req = Some out \<Longrightarrow> signal out \<noteq> Thrown e"
    by (auto simp: asyncHandler_not_thrown split: matched.splits)
next
  case CollectionGate
  then show "layer P L s r req = Some out \<Longrightarrow> signal out \<noteq> Thrown e"
    by (auto simp: collectionGate_not_thrown split: matched.splits list.splits)
qed (auto elim!: on_collection_not_thrown [rotated] on_collection_id_not_thrown [rotated]
      intro!: chain_not_thrown
      simp: asyncHandler_not_thrown jwt_signal isAuthenticated_not_thrown queryParser_signal)

lemma step_not_thrown: "step P L s r req = Some out \<Longrightarrow> signal out \<noteq> Thrown e"
  by (auto simp: step_def finish_def dest: layer_not_thrown split: option.splits)

lemma run_stack_not_thrown:
  "(\<And>l r out. l \<in> set ls \<Longrightarrow> l r = Some out \<Longrightarrow> signal out \<noteq> Thrown e) \<Longrightarrow>
   signal (run_stack ls req) \<noteq> Thrown e"
proof (induction ls arbitrary: req)
  case Nil
  then show ?case by (simp add: finish_def)
next
  case (Cons l ls)
  have rest: "signal (run_stack ls r) \<noteq> Thrown e" for r
  proof (rule Cons.IH)
    fix l' r' out
    assume "l' \<in> set ls" and "l' r' = Some out"
    then show "signal out \<noteq> Thrown e"
      using Cons.prems [of l' r' out] by simp
  qed
  show ?case
  proof (cases "l req")
    case None
    with rest show ?thesis by simp
  next
    case (Some out)
    have "signal out \<noteq> Thrown e"
      using Cons.prems [of l req out] Some by simp
    with Some rest show ?thesis by (simp add: and_then_signal)
  qed
qed

lemma stack_not_thrown: "signal (run_stack (map (step P L s) routes) req) \<noteq> Thrown e"
  by (rule run_stack_not_thrown) (auto dest: step_not_thrown)

lemma errorHandler_is_error_reply: "is_error_reply (errorHandler err)"
  by (simp add: errorHandler_def is_error_reply_def)

lemma router_signal:
  "signal (payloadAPIRouterMiddleware P L s req) =
     (case signal (run_stack (map (step P L s) routes) req) of
        Raise err \<Rightarrow> Sent (errorHandler err) | sg \<Rightarrow> sg)"
  by (simp add: payloadAPIRouterMiddleware_def Let_def split: signal.splits)

lemma asyncHandler_signal:
  "signal (asyncHandler fn req) = (case signal (fn req) of Thrown e \<Rightarrow> Raise e | sg \<Rightarrow> sg)"
  by (simp add: asyncHandler_def Let_def split: signal.splits)

lemma regex_params_keys:
  "regex_params L p = Matched ps \<Longrightarrow> map_of ps ''customPath'' = None"
  by (auto simp: regex_params_def Let_def map_of_eq_None_iff
      split: option.splits list.splits if_splits matched.splits dest!: set_zip_leftD)

lemma and_then_pass: "and_then (finish req Continue) f = f req"
  by (simp add: and_then_def finish_def Let_def)

lemma and_then_stop: "signal out \<noteq> Continue \<Longrightarrow> and_then out f = out"
  by (simp add: and_then_def split: signal.splits)


lemma run_stack_reaches:
  assumes "\<forall>l \<in> set before. l req = None \<or> l req = Some (finish req Continue)"
    and "l req = Some out" and "signal out \<noteq> Continue"
  shows "run_stack (before @ l # after) req = out"
  using assms
  by (induction before) (auto simp: and_then_pass and_then_stop)

lemma asyncHandler_thrown:
  "signal (h rq) = Thrown err \<Longrightarrow> signal (asyncHandler h rq) = Raise err"
  by (simp add: asyncHandler_signal)

lemma custom_handler_error_exits:
  assumes "regex_params L (req_path req) = Matched ps"
    and "find (\<lambda>ie. ep_path (snd ie) = req_path req) (enumerate 0 (pl_endpoints P)) = Some (k, ep)"
    and "ep_handler ep = Some h"
    and "toUpperCase (ep_method ep) = req_method req"
    and "h (payloadReq_of req) = Inl err \<or>
         (h (payloadReq_of req) = Inr result \<and>
          \<not> (300 \<le> hr_status result \<and> hr_status result < 400) \<and> hr_json result = Inl err)"
  shows "payloadAPIRouterMiddleware P L s req =
           \<lparr>events = [EndpointCall k (payloadReq_of req)], req_after = req, signal = ExitRouter\<rparr>"
proof -
  let ?out = "\<lparr>events = [EndpointCall k (payloadReq_of req)], req_after = req, signal = ExitRouter\<rparr>"
  have "customEndpoint P ps req = ?out"
    using assms regex_params_keys [OF assms(1)]
    by (auto simp: customEndpoint_def Let_def)
  then have "step P L s CustomRoute req = Some ?out"
    using assms(1)
    by (simp add: step_def layer_failure_def failure_of_def asyncHandler_def Let_def)
  then have "run_stack (map (step P L s) routes) req = ?out"
    by (simp add: routes_def and_then_stop)
  then show ?thesis
    by (simp add: payloadAPIRouterMiddleware_def)
qed

section \<open>The error translator\<close>

text \<open>
  C8: the error translator tests the caught error in a fixed order. (1) The name
  \<^verbatim>\<open>ValidationError\<close> or a truthy \<^verbatim>\<open>data.errors\<close> gives 400 with \<^verbatim>\<open>{error, message, data}\<close>;
  (2) failing that, the status 401 gives 401 with \<^verbatim>\<open>{errors: {message: [message]}}\<close>;
  (3) failing that, a message that contains \<^verbatim>\<open>Not Found\<close> or \<^verbatim>\<open>Cast to ObjectId failed\<close>
  gives 404 with \<^verbatim>\<open>{error, message}\<close>; (4) everything else gives 500 with
  \<^verbatim>\<open>{error, message}\<close>. The first test has no side condition, so an error of several
  shapes is answered by the earliest test it passes.
\<close>

theorem errorHandler_order:
  "((err_name err = ''ValidationError'' \<or>
      (\<not> nullish (err_data err) \<and> truthy (get_prop (err_data err) ''errors'')))
     \<longrightarrow> errorHandler err =
           Json 400 (JObj [(''error'', JStr ''Validation Failed''),
             (''message'', JStr (err_message err)), (''data'', err_data err)])) \<and>
   (\<not> (err_name err = ''ValidationError'' \<or>
      (\<not> nullish (err_data err) \<and> truthy (get_prop (err_data err) ''errors''))) \<and>
    err_status err = JNum (Fin 401)
     \<longrightarrow> errorHandler err =
           Json 401 (JObj [(''errors'', JObj [(''message'', JArr [JStr (err_message err)])])])) \<and>
   (\<not> (err_name err = ''ValidationError'' \<or>
      (\<not> nullish (err_data err) \<and> truthy (get_prop (err_data err) ''errors''))) \<and>
    err_status err \<noteq> JNum (Fin 401) \<and>
    (str_includes (err_message err) ''Not Found'' \<or>
     str_includes (err_message err) ''Cast to ObjectId failed'')
     \<longrightarrow> errorHandler err =
           Json 404 (JObj [(''error'', JStr ''Resource Not Found''),
             (''message'', JStr (err_message err))])) \<and>
   (\<not> (err_name err = ''ValidationError'' \<or>
      (\<not> nullish (err_data err) \<and> truthy (get_prop (err_data err) ''errors''))) \<and>
    err_status err \<noteq> JNum (Fin 401) \<and>
    \<not> str_includes (err_message err) ''Not Found'' \<and>
    \<not> str_includes (err_message err) ''Cast to ObjectId failed''
     \<longrightarrow> errorHandler err =
           Json 500 (JObj [(''error'', JStr ''Server Error''),
             (''message'', JStr (err_message err))]))"
  by (simp add: errorHandler_def)

text \<open>
  Four errors, one for each branch: a validation error that also has the status 401 and
  a not-found message is answered 400; an error with the status 401 and a not-found
  message is answered 401; a cast failure is answered 404; the match of the markers is
  case-sensitive, so \<^verbatim>\<open>not found\<close> is answered 500.
\<close>

theorem errorHandler_order_witness:
  "errorHandler \<lparr>err_name = ''ValidationError'', err_message = ''Not Found'',
           err_status = JNum (Fin 401), err_data = JUndefined\<rparr> =
     Json 400 (JObj [(''error'', JStr ''Validation Failed''),
        (''message'', JStr ''Not Found''), (''data'', JUndefined)]) \<and>
   errorHandler \<lparr>err_name = ''Error'', err_message = ''Not Found'',
           err_status = JNum (Fin 401), err_data = JNull\<rparr> =
     Json 401 (JObj [(''errors'', JObj [(''message'', JArr [JStr ''Not Found''])])]) \<and>
   errorHandler \<lparr>err_name = ''CastError'',
           err_message = ''Cast to ObjectId failed for value 1'',
           err_status = JUndefined, err_data = JObj []\<rparr> =
     Json 404 (JObj [(''error'', JStr ''Resource Not Found''),
        (''message'', JStr ''Cast to ObjectId failed for value 1'')]) \<and>
   errorHandler \<lparr>err_name = ''Error'', err_message = ''not found'',
           err_status = JNum (Fin 403), err_data = JUndefined\<rparr> =
     Json 500 (JObj [(''error'', JStr ''Server Error''), (''message'', JStr ''not found'')])"
  using
    errorHandler_order [of "\<lparr>err_name = ''ValidationError'', err_message = ''Not Found'',
           err_status = JNum (Fin 401), err_data = JUndefined\<rparr>"]
    errorHandler_order [of "\<lparr>err_name = ''Error'', err_message = ''Not Found'',
           err_status = JNum (Fin 401), err_data = JNull\<rparr>"]
    errorHandler_order [of "\<lparr>err_name = ''CastError'',
           err_message = ''Cast to ObjectId failed for value 1'',
           err_status = JUndefined, err_data = JObj []\<rparr>"]
    errorHandler_order [of "\<lparr>err_name = ''Error'', err_message = ''not found'',
           err_status = JNum (Fin 403), err_data = JUndefined\<rparr>"]
  by (simp add: startsWith_def)

section \<open>Errors on their way to the translator\<close>

text \<open>
  C1, as the code has it, for thrown values that are Error objects. With \<open>R\<close> the outcome
  of the router, \<open>rq\<close> the request after the bearer-token resolver and \<open>rq'\<close> the request
  after the query parser:
  \<^item> the router never ends in an error: neither \<^verbatim>\<open>next(err)\<close> nor an exception leaves it;
  \<^item> whatever the stack passes to \<^verbatim>\<open>next(err)\<close> is answered by the error translator, and every
    answer of the translator is a JSON body with a key \<^verbatim>\<open>error\<close> or \<^verbatim>\<open>errors\<close> under 400, 401,
    404 or 500;
  \<^item> when the layers before a layer let the request through and that layer ends in
    \<^verbatim>\<open>next(err)\<close>, the router's outcome is that layer's, with the translator's answer to
    \<open>err\<close> as the response;
  \<^item> on each of the login, logout, me, find-many, count, find-by-id, create, update and
    delete routes, when the route matches (and, where it has the gate, a user is
    resolved) and its handler throws \<open>err\<close>, the layer ends in \<^verbatim>\<open>next(err)\<close>;
  \<^item> a handler throws what its engine call throws, and the me handler throws a TypeError
    when there is no user;
  \<^item> when the catch-all matches, the endpoint found for the path has the request's method,
    and its handler or the \<^verbatim>\<open>json()\<close> of its result throws, the router's outcome is the one
    call of the handler, the unchanged request and \<^verbatim>\<open>next("router")\<close>: no response is
    written and the translator is not reached.
\<close>

theorem handler_errors_are_translated:
  fixes P :: payload and L :: libs and s :: bool and req :: request
  defines "R \<equiv> payloadAPIRouterMiddleware P L s req"
    and "rq \<equiv> req_after (payloadJwtAuthMiddleware P L req)"
  defines "rq' \<equiv> req_after (queryParser L rq)"
  shows
  "(\<forall>e. signal R \<noteq> Raise e \<and> signal R \<noteq> Thrown e) \<and>
   (signal (run_stack (map (step P L s) routes) req) = Raise err \<longrightarrow>
      signal R = Sent (errorHandler err)) \<and>
   is_error_reply (errorHandler err) \<and>
   (routes = before @ r # after \<and>
    (\<forall>r' \<in> set before.
       step P L s r' req = None \<or> step P L s r' req = Some (finish req Continue)) \<and>
    step P L s r req = Some out \<and> signal out = Raise err \<longrightarrow>
      R = out\<lparr>signal := Sent (errorHandler err)\<rparr>) \<and>
   (handles ''POST'' (req_method req) \<and>
    match_route L (route_path LoginRoute) (req_path req) = Matched [c] \<and>
    signal (login P c req) = Thrown err \<longrightarrow>
      step P L s LoginRoute req = Some (asyncHandler (login P c) req) \<and>
      signal (asyncHandler (login P c) req) = Raise err) \<and>
   (handles ''POST'' (req_method req) \<and>
    match_route L (route_path LogoutRoute) (req_path req) = Matched [c] \<and>
    signal (logout P c req) = Thrown err \<longrightarrow>
      step P L s LogoutRoute req = Some (asyncHandler (logout P c) req) \<and>
      signal (asyncHandler (logout P c) req) = Raise err) \<and>
   (handles ''GET'' (req_method req) \<and>
    match_route L (route_path MeRoute) (req_path req) = Matched [c] \<and>
    signal (me P c rq) = Thrown err \<longrightarrow>
      map_option signal (step P L s MeRoute req) = Some (Raise err)) \<and>
   (handles ''GET'' (req_method req) \<and>
    match_route L (route_path FindManyRoute) (req_path req) = Matched [c] \<and>
    truthy (req_user rq) \<and> signal (findMany P L s c rq') = Thrown err \<longrightarrow>
      map_option signal (step P L s FindManyRoute req) = Some (Raise err)) \<and>
   (handles ''GET'' (req_method req) \<and>
    match_route L (route_path CountRoute) (req_path req) = Matched [c] \<and>
    truthy (req_user rq) \<and> signal (count P L c rq') = Thrown err \<longrightarrow>
      map_option signal (step P L s CountRoute req) = Some (Raise err)) \<and>
   (handles ''GET'' (req_method req) \<and>
    match_route L (route_path FindByIDRoute) (req_path req) = Matched [c, d] \<and>
    truthy (req_user rq) \<and> signal (findByID P L c d rq) = Thrown err \<longrightarrow>
      map_option signal (step P L s FindByIDRoute req) = Some (Raise err)) \<and>
   (handles ''POST'' (req_method req) \<and>
    match_route L (route_path CreateRoute) (req_path req) = Matched [c] \<and>
    truthy (req_user rq) \<and> signal (create P c rq) = Thrown err \<longrightarrow>
      map_option signal (step P L s CreateRoute req) = Some (Raise err)) \<and>
   (handles ''PATCH'' (req_method req) \<and>
    match_route L (route_path UpdateRoute) (req_path req) = Matched [c, d] \<and>
    truthy (req_user rq) \<and> signal (update P c d rq) = Thrown err \<longrightarrow>
      map_option signal (step P L s UpdateRoute req) = Some (Raise err)) \<and>
   (handles ''DELETE'' (req_method req) \<and>
    match_route L (route_path DeleteRoute) (req_path req) = Matched [c, d] \<and>
    truthy (req_user rq) \<and> signal (delete P c d rq) = Thrown err \<longrightarrow>
      map_option signal (step P L s DeleteRoute req) = Some (Raise err)) \<and>
   (pl_login P a = Inl err \<and> events (login P c req) = [EngineCall ''login'' a] \<longrightarrow>
      signal (login P c req) = Thrown err) \<and>
   (pl_logout P a = Inl err \<and> events (logout P c req) = [EngineCall ''logout'' a] \<longrightarrow>
      signal (logout P c req) = Thrown err) \<and>
   (pl_findByID P a = Inl err \<and> events (me P c rq) = [EngineCall ''findByID'' a] \<longrightarrow>
      signal (me P c rq) = Thrown err) \<and>
   (nullish (req_user rq) \<longrightarrow>
      signal (me P c rq) = Thrown (TypeError (destructure_message (req_user rq)))) \<and>
   (pl_find P a = Inl err \<and> events (findMany P L s c rq') = [EngineCall ''find'' a] \<longrightarrow>
      signal (findMany P L s c rq') = Thrown err) \<and>
   (pl_count P a = Inl err \<and> events (count P L c rq') = [EngineCall ''count'' a] \<longrightarrow>
      signal (count P L c rq') = Thrown err) \<and>
   (pl_findByID P a = Inl err \<and> events (findByID P L c d rq) = [EngineCall ''findByID'' a] \<longrightarrow>
      signal (findByID P L c d rq) = Thrown err) \<and>
   (pl_create P a = Inl err \<and> events (create P c rq) = [EngineCall ''create'' a] \<longrightarrow>
      signal (create P c rq) = Thrown err) \<and>
   (pl_update P a = Inl err \<and> events (update P c d rq) = [EngineCall ''update'' a] \<longrightarrow>
      signal (update P c d rq) = Thrown err) \<and>
   (pl_delete P a = Inl err \<and> events (delete P c d rq) = [EngineCall ''delete'' a] \<longrightarrow>
      signal (delete P c d rq) = Thrown err) \<and>
   (regex_params L (req_path req) = Matched ps \<and>
    find (\<lambda>ie. ep_path (snd ie) = req_path req) (enumerate 0 (pl_endpoints P)) = Some (k, ep) \<and>
    ep_handler ep = Some h \<and> toUpperCase (ep_method ep) = req_method req \<and>
    (h (payloadReq_of req) = Inl err \<or>
     (h (payloadReq_of req) = Inr result \<and>
      \<not> (300 \<le> hr_status result \<and> hr_status result < 400) \<and> hr_json result = Inl err)) \<longrightarrow>
      R = \<lparr>events = [EndpointCall k (payloadReq_of req)], req_after = req,
           signal = ExitRouter\<rparr>)"
proof -
  have never: "signal R \<noteq> Raise e \<and> signal R \<noteq> Thrown e" for e
    using stack_not_thrown [of P L s req e]
    by (auto simp: R_def router_signal split: signal.splits)
  have translated: "signal (run_stack (map (step P L s) routes) req) = Raise err \<longrightarrow>
      signal R = Sent (errorHandler err)"
    by (simp add: R_def router_signal)
  have routed: "routes = before @ r # after \<and>
    (\<forall>r' \<in> set before.
       step P L s r' req = None \<or> step P L s r' req = Some (finish req Continue)) \<and>
    step P L s r req = Some out \<and> signal out = Raise err \<longrightarrow>
      R = out\<lparr>signal := Sent (errorHandler err)\<rparr>"
  proof (intro impI, elim conjE)
    assume split: "routes = before @ r # after"
      and pass: "\<forall>r' \<in> set before.
         step P L s r' req = None \<or> step P L s r' req = Some (finish req Continue)"
      and here: "step P L s r req = Some out" and raised: "signal out = Raise err"
    have "run_stack (map (step P L s) before @ step P L s r # map (step P L s) after) req = out"
      using pass here raised by (intro run_stack_reaches) auto
    then have "run_stack (map (step P L s) routes) req = out"
      by (simp add: split)
    then show "R = out\<lparr>signal := Sent (errorHandler err)\<rparr>"
      using raised by (simp add: R_def payloadAPIRouterMiddleware_def)
  qed
  have no_failure: "match_route L (route_path r) (req_path req) = Matched vs \<Longrightarrow>
      r \<noteq> CustomRoute \<Longrightarrow> r \<noteq> CollectionGate \<Longrightarrow> step P L s r req = layer P L s r req"
    for r vs
    by (simp add: step_def layer_failure_def failure_of_def)
  have links:
    "handles ''POST'' (req_method req) \<and>
      match_route L (route_path LoginRoute) (req_path req) = Matched [c] \<and>
      signal (login P c req) = Thrown err \<longrightarrow>
        step P L s LoginRoute req = Some (asyncHandler (login P c) req) \<and>
        signal (asyncHandler (login P c) req) = Raise err"
    "handles ''POST'' (req_method req) \<and>
      match_route L (route_path LogoutRoute) (req_path req) = Matched [c] \<and>
      signal (logout P c req) = Thrown err \<longrightarrow>
        step P L s LogoutRoute req = Some (asyncHandler (logout P c) req) \<and>
        signal (asyncHandler (logout P c) req) = Raise err"
    "handles ''GET'' (req_method req) \<and>
      match_route L (route_path MeRoute) (req_path req) = Matched [c] \<and>
      signal (me P c rq) = Thrown err \<longrightarrow>
        map_option signal (step P L s MeRoute req) = Some (Raise err)"
    "handles ''GET'' (req_method req) \<and>
      match_route L (route_path FindManyRoute) (req_path req) = Matched [c] \<and>
      truthy (req_user rq) \<and> signal (findMany P L s c rq') = Thrown err \<longrightarrow>
        map_option signal (step P L s FindManyRoute req) = Some (Raise err)"
    "handles ''GET'' (req_method req) \<and>
      match_route L (route_path CountRoute) (req_path req) = Matched [c] \<and>
      truthy (req_user rq) \<and> signal (count P L c rq') = Thrown err \<longrightarrow>
        map_option signal (step P L s CountRoute req) = Some (Raise err)"
    "handles ''GET'' (req_method req) \<and>
      match_route L (route_path FindByIDRoute) (req_path req) = Matched [c, d] \<and>
      truthy (req_user rq) \<and> signal (findByID P L c d rq) = Thrown err \<longrightarrow>
        map_option signal (step P L s FindByIDRoute req) = Some (Raise err)"
    "handles ''POST'' (req_method req) \<and>
      match_route L (route_path CreateRoute) (req_path req) = Matched [c] \<and>
      truthy (req_user rq) \<and> signal (create P c rq) = Thrown err \<longrightarrow>
        map_option signal (step P L s CreateRoute req) = Some (Raise err)"
    "handles ''PATCH'' (req_method req) \<and>
      match_route L (route_path UpdateRoute) (req_path req) = Matched [c, d] \<and>
      truthy (req_user rq) \<and> signal (update P c d rq) = Thrown err \<longrightarrow>
        map_option signal (step P L s UpdateRoute req) = Some (Raise err)"
    "handles ''DELETE'' (req_method req) \<and>
      match_route L (route_path DeleteRoute) (req_path req) = Matched [c, d] \<and>
      truthy (req_user rq) \<and> signal (delete P c d rq) = Thrown err \<longrightarrow>
        map_option signal (step P L s DeleteRoute req) = Some (Raise err)"
    by (auto simp: rq_def rq'_def no_failure on_collection_def on_collection_id_def
        and_then_signal jwt_signal isAuthenticated_def queryParser_def finish_def
        asyncHandler_signal and_then_def Let_def
        simp del: route_path.simps)
  have calls:
    "pl_login P a = Inl err \<and> events (login P c req) = [EngineCall ''login'' a] \<longrightarrow>
        signal (login P c req) = Thrown err"
    "pl_logout P a = Inl err \<and> events (logout P c req) = [EngineCall ''logout'' a] \<longrightarrow>
        signal (logout P c req) = Thrown err"
    "pl_findByID P a = Inl err \<and> events (me P c rq) = [EngineCall ''findByID'' a] \<longrightarrow>
        signal (me P c rq) = Thrown err"
    "nullish (req_user rq) \<longrightarrow>
        signal (me P c rq) = Thrown (TypeError (destructure_message (req_user rq)))"
    "pl_find P a = Inl err \<and> events (findMany P L s c rq') = [EngineCall ''find'' a] \<longrightarrow>
        signal (findMany P L s c rq') = Thrown err"
    "pl_count P a = Inl err \<and> events (count P L c rq') = [EngineCall ''count'' a] \<longrightarrow>
        signal (count P L c rq') = Thrown err"
    "pl_findByID P a = Inl err \<and> events (findByID P L c d rq) = [EngineCall ''findByID'' a] \<longrightarrow>
        signal (findByID P L c d rq) = Thrown err"
    "pl_create P a = Inl err \<and> events (create P c rq) = [EngineCall ''create'' a] \<longrightarrow>
        signal (create P c rq) = Thrown err"
    "pl_update P a = Inl err \<and> events (update P c d rq) = [EngineCall ''update'' a] \<longrightarrow>
        signal (update P c d rq) = Thrown err"
    "pl_delete P a = Inl err \<and> events (delete P c d rq) = [EngineCall ''delete'' a] \<longrightarrow>
        signal (delete P c d rq) = Thrown err"
    by (auto simp: login_def logout_def me_def findMany_def count_def
        findByID_def create_def update_def delete_def await_call_def finish_def
        split: if_splits)
  have custom: "regex_params L (req_path req) = Matched ps \<and>
    find (\<lambda>ie. ep_path (snd ie) = req_path req) (enumerate 0 (pl_endpoints P)) = Some (k, ep) \<and>
    ep_handler ep = Some h \<and> toUpperCase (ep_method ep) = req_method req \<and>
    (h (payloadReq_of req) = Inl err \<or>
     (h (payloadReq_of req) = Inr result \<and>
      \<not> (300 \<le> hr_status result \<and> hr_status result < 400) \<and> hr_json result = Inl err)) \<longrightarrow>
      R = \<lparr>events = [EndpointCall k (payloadReq_of req)], req_after = req,
           signal = ExitRouter\<rparr>"
    unfolding R_def by (intro impI, elim conjE) (rule custom_handler_error_exits)
  show ?thesis
    using never translated routed links calls custom errorHandler_is_error_reply [of err]
    by blast
qed

text \<open>
  A create that fails validation: the engine throws, the handler throws the same error,
  the layers before the create route let the request through, and the router answers
  with the translator's 400 and the field-level data. A custom endpoint whose \<^verbatim>\<open>json()\<close>
  throws: the router hands the request back with nothing written.
\<close>

theorem handler_errors_are_translated_witness:
  "pl_create (sample_engine [])
     (create_args ''posts'' ((sample_request ''POST'' ''/api/posts'')\<lparr>req_user := sample_user\<rparr>)) =
     Inl validation_error \<and>
   signal (create (sample_engine []) ''posts''
     ((sample_request ''POST'' ''/api/posts'')\<lparr>req_user := sample_user\<rparr>)) =
     Thrown validation_error \<and>
   payloadAPIRouterMiddleware (sample_engine []) sample_libs False
       ((sample_request ''POST'' ''/api/posts'')\<lparr>req_user := sample_user\<rparr>) =
     \<lparr>events =
        [EngineCall ''create''
           (create_args ''posts''
              ((sample_request ''POST'' ''/api/posts'')\<lparr>req_user := sample_user\<rparr>))],
      req_after = (sample_request ''POST'' ''/api/posts'')\<lparr>req_user := sample_user\<rparr>,
      signal = Sent (Json 400 (JObj [(''error'', JStr ''Validation Failed''),
        (''message'', JStr ''The following field is invalid: title''),
        (''data'', JObj [(''errors'', JArr [JObj [(''field'', JStr ''title'')]])])]))\<rparr> \<and>
   payloadAPIRouterMiddleware
       (sample_engine
          [\<lparr>ep_path = ''/api/broken'', ep_method = ''get'',
            ep_handler = Some broken_json_handler\<rparr>])
       sample_libs False (sample_request ''GET'' ''/api/broken'') =
     \<lparr>events = [EndpointCall 0 (payloadReq_of (sample_request ''GET'' ''/api/broken''))],
      req_after = sample_request ''GET'' ''/api/broken'',
      signal = ExitRouter\<rparr>"
proof -
  let ?P = "sample_engine []"
  let ?req = "(sample_request ''POST'' ''/api/posts'')\<lparr>req_user := sample_user\<rparr>"
  let ?out = "\<lparr>events = [EngineCall ''create'' (create_args ''posts'' ?req)],
      req_after = ?req, signal = Raise validation_error\<rparr>"
  have failed: "pl_create ?P (create_args ''posts'' ?req) = Inl validation_error"
    by (simp add: sample_engine_def)
  have called: "events (create ?P ''posts'' (req_after (payloadJwtAuthMiddleware ?P sample_libs ?req))) =
      [EngineCall ''create'' (create_args ''posts'' ?req)]"
    by code_simp
  have same: "req_after (payloadJwtAuthMiddleware ?P sample_libs ?req) = ?req"
    by code_simp
  have order: "routes =
      [CustomRoute, CollectionGate, LoginRoute, LogoutRoute, MeRoute, FindManyRoute, CountRoute,
       FindByIDRoute] @ CreateRoute # [UpdateRoute, DeleteRoute]"
    by (simp add: routes_def)
  have pass: "\<forall>r' \<in> set [CustomRoute, CollectionGate, LoginRoute, LogoutRoute, MeRoute,
        FindManyRoute, CountRoute, FindByIDRoute].
      step ?P sample_libs False r' ?req = None \<or>
      step ?P sample_libs False r' ?req = Some (finish ?req Continue)"
    by code_simp
  have here: "step ?P sample_libs False CreateRoute ?req = Some ?out"
    by code_simp
  have reply: "errorHandler validation_error =
      Json 400 (JObj [(''error'', JStr ''Validation Failed''),
        (''message'', JStr ''The following field is invalid: title''),
        (''data'', JObj [(''errors'', JArr [JObj [(''field'', JStr ''title'')]])])])"
    by (simp add: errorHandler_def validation_error_def)
  note create_case = handler_errors_are_translated
    [where P = ?P and L = sample_libs and s = False and req = ?req and err = validation_error
       and before = "[CustomRoute, CollectionGate, LoginRoute, LogoutRoute, MeRoute,
          FindManyRoute, CountRoute, FindByIDRoute]"
       and r = CreateRoute and after = "[UpdateRoute, DeleteRoute]" and out = ?out
       and c = "''posts''" and a = "create_args ''posts'' ?req"]
  let ?Q = "sample_engine
      [\<lparr>ep_path = ''/api/broken'', ep_method = ''get'', ep_handler = Some broken_json_handler\<rparr>]"
  let ?get = "sample_request ''GET'' ''/api/broken''"
  have matched: "regex_params sample_libs (req_path ?get) =
      Matched [(''0'', ''api''), (''1'', ''broken'')]"
    by code_simp
  have found: "find (\<lambda>ie. ep_path (snd ie) = req_path ?get) (enumerate 0 (pl_endpoints ?Q)) =
      Some (0, \<lparr>ep_path = ''/api/broken'', ep_method = ''get'',
        ep_handler = Some broken_json_handler\<rparr>)"
    by (simp add: sample_engine_def sample_request_def)
  have upper: "toUpperCase ''get'' = req_method ?get"
    by code_simp
  have broken: "broken_json_handler (payloadReq_of ?get) =
      Inr \<lparr>hr_status = 200, hr_location = JNull,
        hr_json = Inl (Error ''Unexpected end of JSON input'')\<rparr>"
    by (simp add: broken_json_handler_def)
  note custom_case = handler_errors_are_translated
    [where P = ?Q and L = sample_libs and s = False and req = ?get
       and err = "Error ''Unexpected end of JSON input''"
       and ps = "[(''0'', ''api''), (''1'', ''broken'')]" and k = 0
       and ep = "\<lparr>ep_path = ''/api/broken'', ep_method = ''get'',
         ep_handler = Some broken_json_handler\<rparr>"
       and h = broken_json_handler
       and result = "\<lparr>hr_status = 200, hr_location = JNull,
         hr_json = Inl (Error ''Unexpected end of JSON input'')\<rparr>"]
  have first: "payloadAPIRouterMiddleware ?P sample_libs False ?req =
      ?out\<lparr>signal := Sent (errorHandler validation_error)\<rparr>"
    using create_case order pass here by simp
  have thrown: "signal (create ?P ''posts'' ?req) = Thrown validation_error"
    using create_case failed called same by simp
  have second: "payloadAPIRouterMiddleware ?Q sample_libs False ?get =
      \<lparr>events = [EndpointCall 0 (payloadReq_of ?get)], req_after = ?get, signal = ExitRouter\<rparr>"
    using custom_case matched found upper broken by simp
  show ?thesis
    using failed thrown first second reply by simp
qed

text \<open>
  Against C1 as stated: a custom endpoint whose handler throws. The catch-all's own
  \<^verbatim>\<open>catch\<close> logs the error and calls \<^verbatim>\<open>next("router")\<close>: the router writes no response and
  the error never reaches the translator.
\<close>

theorem custom_endpoint_error_is_not_translated:
  "failing_handler (payloadReq_of (sample_request ''GET'' ''/api/boom'')) = Inl (Error ''boom'') \<and>
   payloadAPIRouterMiddleware
       (sample_engine
          [\<lparr>ep_path = ''/api/boom'', ep_method = ''get'', ep_handler = Some failing_handler\<rparr>])
       sample_libs False (sample_request ''GET'' ''/api/boom'') =
     \<lparr>events = [EndpointCall 0 (payloadReq_of (sample_request ''GET'' ''/api/boom''))],
      req_after = sample_request ''GET'' ''/api/boom'',
      signal = ExitRouter\<rparr>"
  by code_simp

section \<open>The authorization gate\<close>

text \<open>
  C2 at \<^verbatim>\<open>GET /api/users/me\<close> without an \<^verbatim>\<open>Authorization\<close> header: the route has no
  \<^verbatim>\<open>isAuthenticated\<close>, the handler destructures \<^verbatim>\<open>req.user\<close>, which is \<^verbatim>\<open>undefined\<close>, and
  the TypeError is answered 500 by the error translator, not 401.
\<close>

theorem me_without_user_answers_500:
  "payloadAPIRouterMiddleware (sample_engine []) sample_libs False
       (sample_request ''GET'' ''/api/users/me'') =
     \<lparr>events = [],
      req_after = sample_request ''GET'' ''/api/users/me'',
      signal = Sent (Json 500 (JObj [(''error'', JStr ''Server Error''),
         (''message'', JStr (destructure_message JUndefined))]))\<rparr>"
  by code_simp

section \<open>Custom endpoints\<close>

text \<open>
  C3 at \<^verbatim>\<open>GET /api/users\<close>, where \<^verbatim>\<open>users\<close> is a collection and a custom endpoint is
  registered under the same path: the parameters of the regular-expression route have no
  \<^verbatim>\<open>customPath\<close>, the collection test compares \<^verbatim>\<open>undefined\<close>, and the endpoint's handler
  answers the request; find-many is never called.
\<close>

theorem custom_endpoint_shadows_collection:
  "payloadAPIRouterMiddleware
       (sample_engine
          [\<lparr>ep_path = ''/api/users'', ep_method = ''get'', ep_handler = Some json_handler\<rparr>])
       sample_libs False
       ((sample_request ''GET'' ''/api/users'')\<lparr>req_user := sample_user\<rparr>) =
     \<lparr>events =
        [EndpointCall 0
           (payloadReq_of ((sample_request ''GET'' ''/api/users'')\<lparr>req_user := sample_user\<rparr>))],
      req_after = (sample_request ''GET'' ''/api/users'')\<lparr>req_user := sample_user\<rparr>,
      signal = Sent (Json 200 (JStr ''custom''))\<rparr>"
  by code_simp

text \<open>
  C4 at \<^verbatim>\<open>POST /api/special\<close>, with one endpoint for \<^verbatim>\<open>get\<close> and one for \<^verbatim>\<open>post\<close> on that
  path: the search stops at the first endpoint of the path, its method differs, and the
  request leaves the router with no handler invoked, though the second endpoint matches
  in method and path.
\<close>

theorem second_endpoint_on_a_path_is_never_invoked:
  "payloadAPIRouterMiddleware
       (sample_engine
          [\<lparr>ep_path = ''/api/special'', ep_method = ''get'', ep_handler = Some json_handler\<rparr>,
           \<lparr>ep_path = ''/api/special'', ep_method = ''post'', ep_handler = Some json_handler\<rparr>])
       sample_libs False (sample_request ''POST'' ''/api/special'') =
     \<lparr>events = [], req_after = sample_request ''POST'' ''/api/special'', signal = ExitRouter\<rparr>"
  by code_simp

section \<open>The query normalizer\<close>

text \<open>
  C6 at the empty value (\<^verbatim>\<open>?a=\<close>): \<^verbatim>\<open>Number("")\<close> is \<open>0\<close>, not \<open>NaN\<close>, so the decoder
  returns the number \<open>0\<close> for a value that does not look numeric.
\<close>

theorem decoder_empty_value_is_zero:
  "decoder '''' = JNum (Fin 0)"
  by code_simp

section \<open>Engine calls and the request object\<close>

text \<open>
  C5, as the code has it: find-many, count and find-by-id call the engine with the live
  request object under \<^verbatim>\<open>req\<close>, provided the query has no parameter named \<^verbatim>\<open>req\<close> (the
  query is spread over the argument object last); create, update and delete call the
  engine with the collection, the id and the data only, and no request object.
\<close>

theorem reads_pass_request_writes_do_not:
  assumes "''req'' \<notin> fst ` set (req_query req)"
  shows "events (findMany P L simpleResponses c req) = [EngineCall ''find'' (find_args L c req)] \<and>
         events (count P L c req) = [EngineCall ''count'' (find_args L c req)] \<and>
         map_of (find_args L c req) ''req'' = Some (AReq req) \<and>
         events (findByID P L c i req) = [EngineCall ''findByID'' (findByID_args L c i req)] \<and>
         map_of (findByID_args L c i req) ''req'' = Some (AReq req) \<and>
         events (create P c req) = [EngineCall ''create'' (create_args c req)] \<and>
         map_of (create_args c req) ''req'' = None \<and>
         events (update P c i req) = [EngineCall ''update'' (update_args c i req)] \<and>
         map_of (update_args c i req) ''req'' = None \<and>
         events (delete P c i req) = [EngineCall ''delete'' (delete_args c i)] \<and>
         map_of (delete_args c i) ''req'' = None"
  using assms
  by (simp add: findMany_def count_def findByID_def create_def update_def delete_def
      await_call_events find_args_def findByID_args_def create_args_def update_args_def
      delete_args_def map_of_spread)

theorem reads_pass_request_writes_do_not_witness:
  "''req'' \<notin> fst ` set (req_query (sample_request ''GET'' ''/api/posts'')) \<and>
   map_of (find_args sample_libs ''posts'' (sample_request ''GET'' ''/api/posts'')) ''req'' =
     Some (AReq (sample_request ''GET'' ''/api/posts'')) \<and>
   map_of (create_args ''posts'' (sample_request ''GET'' ''/api/posts'')) ''req'' = None"
  using reads_pass_request_writes_do_not
    [of "sample_request ''GET'' ''/api/posts''" "sample_engine []" sample_libs False "''posts''" "''7''"]
  by (simp add: sample_request_def)

text \<open>
  Against C5 as stated: an authenticated \<^verbatim>\<open>POST /api/posts\<close>. The one engine call is
  \<^verbatim>\<open>create\<close>, and its argument object has the collection and the data, and no request.
\<close>

theorem create_call_has_no_request:
  "events (payloadAPIRouterMiddleware (sample_engine []) sample_libs False
       ((sample_request ''POST'' ''/api/posts'')\<lparr>req_user := sample_user\<rparr>)) =
     [EngineCall ''create''
        [(''collection'', AVal (JStr ''posts'')),
         (''data'', AVal (JObj [(''title'', JStr '''')]))]]"
  by code_simp

section \<open>The bearer-token resolver\<close>

lemma jwt_rejected_keeps_request:
  assumes "map_of (req_headers req) ''authorization'' = Some (''Bearer '' @ token)"
    and "CHR '' '' \<notin> set token"
    and "case jwt_verify L token (take 32 (sha256_hex L (pl_secret P))) of
           Inl e \<Rightarrow> True
         | Inr decoded \<Rightarrow>
             \<not> truthy (get_prop decoded ''id'') \<or>
             (case pl_findByID P (jwt_args (get_prop decoded ''id'') req) of
                Inl e \<Rightarrow> True
              | Inr doc \<Rightarrow> \<not> truthy doc)"
  shows "req_after (payloadJwtAuthMiddleware P L req) = req"
  using assms
  by (auto simp: payloadJwtAuthMiddleware_def split_on_nosep finish_def Let_def
      split: sum.splits)

lemma jwt_without_header:
  "map_of (req_headers req) ''authorization'' = None \<Longrightarrow>
   payloadJwtAuthMiddleware P L req = finish req Continue"
  by (simp add: payloadJwtAuthMiddleware_def)

lemma map_of_filter_key: "map_of (filter (\<lambda>h. fst h \<noteq> k) hs) k = None"
  by (induction hs) auto

lemma gated_layer:
  assumes "r \<in> {FindManyRoute, CountRoute, FindByIDRoute, CreateRoute, UpdateRoute, DeleteRoute}"
    and "\<not> truthy (req_user (req_after (payloadJwtAuthMiddleware P L req)))"
    and "layer P L s r req = Some out"
  shows "signal out = Sent unauthorized"
  using assms
  by (auto simp: on_collection_def on_collection_id_def and_then_signal jwt_signal
      isAuthenticated_def finish_def split: if_splits matched.splits list.splits)

lemma layer_match_ignores_headers:
  "(layer P L s r (req\<lparr>req_headers := hs\<rparr>) = None) = (layer P L s r req = None)"
  by (cases r)
    (auto simp: on_collection_def on_collection_id_def split: matched.splits list.splits)

lemma me_ignores_headers:
  "signal (asyncHandler (me P c) (req\<lparr>req_headers := hs\<rparr>)) = signal (asyncHandler (me P c) req)"
  by (simp add: asyncHandler_signal me_def await_call_def finish_def)

lemma me_layer_signal:
  assumes "req_after (payloadJwtAuthMiddleware P L req) = req"
    and "map_of hs ''authorization'' = None"
  shows "map_option signal (layer P L s MeRoute (req\<lparr>req_headers := hs\<rparr>)) =
         map_option signal (layer P L s MeRoute req)"
  using assms me_ignores_headers [where P = P and req = req and hs = hs]
  by (auto simp: on_collection_def and_then_signal jwt_signal jwt_without_header finish_def
      split: matched.splits list.splits)

text \<open>
  C7: a request carries \<^verbatim>\<open>Authorization: Bearer <token>\<close>, nobody has set \<^verbatim>\<open>req.user\<close>
  before, and the token fails verification, or its decoded payload has no truthy \<^verbatim>\<open>id\<close>, or
  the lookup of the user throws or finds no record. Then the resolver calls \<^verbatim>\<open>next()\<close> and
  leaves the request as it was, with no user; every gated route that matches the request
  (find-many, count, find-by-id, create, update, delete) answers with the 401 of the
  authorization gate, and so it does for the same request with the header removed. The
  signal is never \<^verbatim>\<open>next(err)\<close>: no token error is passed towards the error translator.
  The me route, the one other route that runs the resolver, also ends as it does for the
  request with the header removed.
\<close>

theorem rejected_token_is_anonymous:
  assumes hdr: "map_of (req_headers req) ''authorization'' = Some (''Bearer '' @ token)"
    and tok: "CHR '' '' \<notin> set token"
    and rejected:
      "case jwt_verify L token (take 32 (sha256_hex L (pl_secret P))) of
         Inl e \<Rightarrow> True
       | Inr decoded \<Rightarrow>
           \<not> truthy (get_prop decoded ''id'') \<or>
           (case pl_findByID P (jwt_args (get_prop decoded ''id'') req) of
              Inl e \<Rightarrow> True
            | Inr doc \<Rightarrow> \<not> truthy doc)"
    and anonymous: "\<not> truthy (req_user req)"
    and gated: "r \<in> {FindManyRoute, CountRoute, FindByIDRoute, CreateRoute, UpdateRoute, DeleteRoute}"
    and matched: "layer P L s r req = Some out"
  shows "signal (payloadJwtAuthMiddleware P L req) = Continue \<and>
         req_after (payloadJwtAuthMiddleware P L req) = req \<and>
         signal out = Sent unauthorized \<and>
         map_option signal
           (layer P L s r
              (req\<lparr>req_headers := filter (\<lambda>h. fst h \<noteq> ''authorization'') (req_headers req)\<rparr>)) =
           Some (Sent unauthorized) \<and>
         map_option signal
           (layer P L s MeRoute
              (req\<lparr>req_headers := filter (\<lambda>h. fst h \<noteq> ''authorization'') (req_headers req)\<rparr>)) =
           map_option signal (layer P L s MeRoute req)"
proof -
  let ?bare = "req\<lparr>req_headers := filter (\<lambda>h. fst h \<noteq> ''authorization'') (req_headers req)\<rparr>"
  have kept: "req_after (payloadJwtAuthMiddleware P L req) = req"
    by (rule jwt_rejected_keeps_request [OF hdr tok rejected])
  have here: "signal out = Sent unauthorized"
    using gated matched anonymous kept by (intro gated_layer [of r P L req s out]) simp_all
  have "layer P L s r ?bare \<noteq> None"
    using matched by (simp add: layer_match_ignores_headers)
  then obtain out' where bare: "layer P L s r ?bare = Some out'"
    by blast
  have "payloadJwtAuthMiddleware P L ?bare = finish ?bare Continue"
    by (rule jwt_without_header) (simp add: map_of_filter_key)
  then have "\<not> truthy (req_user (req_after (payloadJwtAuthMiddleware P L ?bare)))"
    using anonymous by (simp add: finish_def)
  then have "signal out' = Sent unauthorized"
    using gated bare by (intro gated_layer [of r P L ?bare s out']) simp_all
  moreover have "map_option signal (layer P L s MeRoute ?bare) =
      map_option signal (layer P L s MeRoute req)"
    by (rule me_layer_signal [OF kept]) (simp add: map_of_filter_key)
  ultimately show ?thesis
    using bare kept here by (simp add: jwt_signal)
qed

text \<open>
  A find-many request with a token that fails verification: the route, and the router as
  a whole, answer 401, and the engine is not called.
\<close>

theorem rejected_token_is_anonymous_witness:
  "map_of (req_headers ((sample_request ''GET'' ''/api/posts'')
       \<lparr>req_headers := [(''authorization'', ''Bearer abc.def.ghi'')]\<rparr>)) ''authorization'' =
     Some (''Bearer '' @ ''abc.def.ghi'') \<and>
   jwt_verify sample_libs ''abc.def.ghi'' (take 32 (sha256_hex sample_libs ''s3cret'')) =
     Inl (Error ''jwt malformed'') \<and>
   map_option signal (layer (sample_engine []) sample_libs False FindManyRoute
     ((sample_request ''GET'' ''/api/posts'')
       \<lparr>req_headers := [(''authorization'', ''Bearer abc.def.ghi'')]\<rparr>)) =
     Some (Sent unauthorized) \<and>
   payloadAPIRouterMiddleware (sample_engine []) sample_libs False
     ((sample_request ''GET'' ''/api/posts'')
       \<lparr>req_headers := [(''authorization'', ''Bearer abc.def.ghi'')]\<rparr>) =
     \<lparr>events = [],
      req_after = (sample_request ''GET'' ''/api/posts'')
        \<lparr>req_headers := [(''authorization'', ''Bearer abc.def.ghi'')]\<rparr>,
      signal = Sent unauthorized\<rparr>"
proof -
  let ?req = "(sample_request ''GET'' ''/api/posts'')
       \<lparr>req_headers := [(''authorization'', ''Bearer abc.def.ghi'')]\<rparr>"
  have hdr: "map_of (req_headers ?req) ''authorization'' = Some (''Bearer '' @ ''abc.def.ghi'')"
    by simp
  have tok: "CHR '' '' \<notin> set ''abc.def.ghi''"
    by simp
  have verify: "jwt_verify sample_libs ''abc.def.ghi''
      (take 32 (sha256_hex sample_libs (pl_secret (sample_engine [])))) = Inl (Error ''jwt malformed'')"
    by (simp add: sample_libs_def)
  have anonymous: "\<not> truthy (req_user ?req)"
    by (simp add: sample_request_def)
  have "layer (sample_engine []) sample_libs False FindManyRoute ?req \<noteq> None"
    by code_simp
  then obtain out where matched: "layer (sample_engine []) sample_libs False FindManyRoute ?req = Some out"
    by blast
  have whole: "payloadAPIRouterMiddleware (sample_engine []) sample_libs False ?req =
     \<lparr>events = [], req_after = ?req, signal = Sent unauthorized\<rparr>"
    by code_simp
  show ?thesis
    using rejected_token_is_anonymous [OF hdr tok _ anonymous _ matched] verify matched whole
    by (simp add: sample_engine_def)
qed

text \<open>
  Without an \<^verbatim>\<open>Authorization\<close> header and without a user, every gated route that matches
  answers 401 before any call of the engine, and leaves the request as it was.
\<close>

theorem no_user_answers_401:
  assumes "r \<in> {FindManyRoute, CountRoute, FindByIDRoute, CreateRoute, UpdateRoute, DeleteRoute}"
    and "map_of (req_headers req) ''authorization'' = None"
    and "\<not> truthy (req_user req)"
    and "layer P L s r req = Some out"
  shows "out = \<lparr>events = [], req_after = req, signal = Sent unauthorized\<rparr>"
  using assms
  by (auto simp: on_collection_def on_collection_id_def and_then_def jwt_without_header
      isAuthenticated_def finish_def Let_def split: if_splits matched.splits list.splits)

theorem no_user_answers_401_witness:
  "map_of (req_headers (sample_request ''PATCH'' ''/api/posts/7'')) ''authorization'' = None \<and>
   layer (sample_engine []) sample_libs False UpdateRoute (sample_request ''PATCH'' ''/api/posts/7'') =
     Some \<lparr>events = [], req_after = sample_request ''PATCH'' ''/api/posts/7'',
            signal = Sent unauthorized\<rparr>"
proof -
  let ?req = "sample_request ''PATCH'' ''/api/posts/7''"
  have hdr: "map_of (req_headers ?req) ''authorization'' = None"
    by (simp add: sample_request_def)
  have anonymous: "\<not> truthy (req_user ?req)"
    by (simp add: sample_request_def)
  have "layer (sample_engine []) sample_libs False UpdateRoute ?req \<noteq> None"
    by code_simp
  then obtain out where matched: "layer (sample_engine []) sample_libs False UpdateRoute ?req = Some out"
    by blast
  show ?thesis
    using no_user_answers_401 [OF _ hdr anonymous matched] hdr matched
    by simp
qed

section \<open>Find by id\<close>

lemma match_collection_id:
  assumes "c \<noteq> []" "i \<noteq> []" "CHR ''/'' \<notin> set c" "CHR ''/'' \<notin> set i"
    and "decodeURIComponent L c = Some collection" "decodeURIComponent L i = Some docId"
  shows "match_route L [Lit ''api'', Par, Par] (''/api/'' @ c @ ''/'' @ i) =
           Matched [collection, docId]"
  using assms
  by (simp add: match_route_def path_segments_def split_on_append split_on_nosep
      decode_all_def decode_param_def)

text \<open>
  C9: on \<^verbatim>\<open>GET /api/<c>/<i>\<close>, where the two segments decode to the collection and the id,
  when a user is resolved and the engine's find-by-id returns no record (a falsy result),
  the route answers 404 with the JSON body
  \<^verbatim>\<open>{error: "<collection> with ID <id> not found."}\<close>: its message names the collection and
  the requested id.
\<close>

theorem missing_record_answers_404:
  assumes get: "req_method req = ''GET''"
    and path: "req_path req = ''/api/'' @ c @ ''/'' @ i"
    and segs: "c \<noteq> []" "i \<noteq> []" "CHR ''/'' \<notin> set c" "CHR ''/'' \<notin> set i"
    and params: "decodeURIComponent L c = Some collection" "decodeURIComponent L i = Some docId"
    and user: "truthy (req_user (req_after (payloadJwtAuthMiddleware P L req)))"
    and absent:
      "pl_findByID P
         (findByID_args L collection docId (req_after (payloadJwtAuthMiddleware P L req))) =
         Inr result"
      "\<not> truthy result"
  shows "map_option signal (layer P L s FindByIDRoute req) =
           Some (Sent (Json 404
             (JObj [(''error'',
                JStr (collection @ '' with ID '' @ docId @ '' not found.''))])))"
proof -
  have m: "match_route L [Lit ''api'', Par, Par] (req_path req) = Matched [collection, docId]"
    unfolding path using segs params by (rule match_collection_id)
  show ?thesis
    using get user absent m
    by (simp add: on_collection_id_def handles_def and_then_signal
        jwt_signal isAuthenticated_def finish_def asyncHandler_def findByID_def await_call_def
        not_found_def Let_def)
qed

text \<open>
  An authenticated \<^verbatim>\<open>GET /api/posts/a%20b\<close> on an engine that finds no record: the route,
  and the router as a whole, answer 404 with \<^verbatim>\<open>posts with ID a b not found.\<close>
\<close>

theorem missing_record_answers_404_witness:
  "req_path ((sample_request ''GET'' ''/api/posts/a%20b'')\<lparr>req_user := sample_user\<rparr>) =
     ''/api/'' @ ''posts'' @ ''/'' @ ''a%20b'' \<and>
   decodeURIComponent sample_libs ''a%20b'' = Some ''a b'' \<and>
   pl_findByID (sample_engine [])
     (findByID_args sample_libs ''posts'' ''a b''
        ((sample_request ''GET'' ''/api/posts/a%20b'')\<lparr>req_user := sample_user\<rparr>)) = Inr JNull \<and>
   map_option signal (layer (sample_engine []) sample_libs False FindByIDRoute
     ((sample_request ''GET'' ''/api/posts/a%20b'')\<lparr>req_user := sample_user\<rparr>)) =
     Some (Sent (Json 404 (JObj [(''error'', JStr ''posts with ID a b not found.'')]))) \<and>
   signal (payloadAPIRouterMiddleware (sample_engine []) sample_libs False
     ((sample_request ''GET'' ''/api/posts/a%20b'')\<lparr>req_user := sample_user\<rparr>)) =
     Sent (Json 404 (JObj [(''error'', JStr ''posts with ID a b not found.'')]))"
proof -
  let ?req = "(sample_request ''GET'' ''/api/posts/a%20b'')\<lparr>req_user := sample_user\<rparr>"
  have get: "req_method ?req = ''GET''"
    by (simp add: sample_request_def)
  have path: "req_path ?req = ''/api/'' @ ''posts'' @ ''/'' @ ''a%20b''"
    by (simp add: sample_request_def)
  have c: "decodeURIComponent sample_libs ''posts'' = Some ''posts''"
    by code_simp
  have i: "decodeURIComponent sample_libs ''a%20b'' = Some ''a b''"
    by code_simp
  have jwt: "payloadJwtAuthMiddleware (sample_engine []) sample_libs ?req = finish ?req Continue"
    by (rule jwt_without_header) (simp add: sample_request_def)
  have user: "truthy (req_user (req_after (payloadJwtAuthMiddleware (sample_engine []) sample_libs ?req)))"
    unfolding jwt by (simp add: finish_def sample_user_def)
  have absent: "pl_findByID (sample_engine [])
      (findByID_args sample_libs ''posts'' ''a b''
         (req_after (payloadJwtAuthMiddleware (sample_engine []) sample_libs ?req))) = Inr JNull"
    by (simp add: sample_engine_def)
  have absent': "pl_findByID (sample_engine [])
      (findByID_args sample_libs ''posts'' ''a b'' ?req) = Inr JNull"
    by (simp add: sample_engine_def)
  have whole: "signal (payloadAPIRouterMiddleware (sample_engine []) sample_libs False ?req) =
      Sent (Json 404 (JObj [(''error'', JStr ''posts with ID a b not found.'')]))"
    by code_simp
  show ?thesis
    using missing_record_answers_404 [OF get path _ _ _ _ c i user absent, of False]
      path i absent' whole
    by simp
qed

section \<open>Unknown collections\<close>



text \<open>
  A parameter that does not decode: the match of the catch-all fails with the URIError,
  and the error translator answers 500.
\<close>

theorem undecodable_parameter_answers_500:
  "payloadAPIRouterMiddleware (sample_engine []) sample_libs False
       (sample_request ''GET'' ''/api/%zz'') =
     \<lparr>events = [], req_after = sample_request ''GET'' ''/api/%zz'',
      signal = Sent (Json 500 (JObj [(''error'', JStr ''Server Error''),
         (''message'', JStr (''Failed to decode param '' @ quoted ''%zz''))]))\<rparr>"
  by code_simp

section \<open>The decoder, case by case\<close>

text \<open>
  What the decoder does with a value: a value that \<^verbatim>\<open>Number\<close> converts becomes that number,
  \<^verbatim>\<open>true\<close> and \<^verbatim>\<open>false\<close> become the booleans (\<^verbatim>\<open>Number\<close> converts neither), and every other
  value stays the string it is.
\<close>

theorem decoder_cases:
  "(\<not> isNaN (Number v) \<longrightarrow> decoder v = JNum (Number v)) \<and>
   decoder ''true'' = JBool True \<and>
   decoder ''false'' = JBool False \<and>
   (isNaN (Number v) \<and> v \<noteq> ''true'' \<and> v \<noteq> ''false'' \<longrightarrow> decoder v = JStr v)"
proof -
  have "isNaN (Number ''true'')" and "isNaN (Number ''false'')"
    by code_simp+
  then show ?thesis
    by (simp add: decoder_def)
qed

theorem decoder_cases_witness:
  "decoder ''-1.5e2'' = JNum (Fin (- 150)) \<and> decoder ''0x1F'' = JNum (Fin 31) \<and>
   decoder ''12abc'' = JStr ''12abc''"
proof -
  have a: "Number ''-1.5e2'' = Fin (- 150)" by code_simp
  have b: "Number ''0x1F'' = Fin 31" by code_simp
  have c: "Number ''12abc'' = NaN" by code_simp
  show ?thesis
    using decoder_cases [of "''-1.5e2''"] decoder_cases [of "''0x1F''"]
      decoder_cases [of "''12abc''"] a b c
    by (simp add: isNaN_def)
qed

end
